theory Spec2Isabelle
  imports Complex_Main
begin

section \<open>JavaScript strings\<close>

text \<open>
  A JavaScript string is a sequence of UTF-16 code units, and \<open>length\<close>, \<open>trim\<close>,
  \<open>includes\<close> and the regular expressions of the sources all work on code units.
  The sources name code units beyond the 8-bit range (the bullet U+2022, the dashes
  U+2013 and U+2014), so a code unit is modelled as a natural number and a string as a
  list of them. \<open>js\<close> turns an Isabelle literal into such a string.
\<close>

type_synonym jsstring = "nat list"

definition js :: "string \<Rightarrow> jsstring" where
  "js s = map of_char s"

text \<open>
  White space and line terminators of ECMAScript, the set that \<open>String.prototype.trim\<close>
  strips and that \<open>\s\<close> matches: TAB, LF, VT, FF, CR, SP, NBSP, U+1680, U+2000..U+200A,
  U+2028, U+2029, U+202F, U+205F, U+3000, U+FEFF.
\<close>

definition isSpace :: "nat \<Rightarrow> bool" where
  "isSpace c = (c \<in> {9, 10, 11, 12, 13, 32, 160, 5760, 8232, 8233, 8239, 8287, 12288, 65279}
                \<or> (8192 \<le> c \<and> c \<le> 8202))"

definition trim :: "jsstring \<Rightarrow> jsstring" where
  "trim s = rev (dropWhile isSpace (rev (dropWhile isSpace s)))"

text \<open>
  \<open>toLowerCase\<close>, code unit by code unit. The model covers the letters of U+0000..U+00FF
  (A..Z and the capital letters U+00C0..U+00DE without the multiplication sign U+00D7);
  every other code unit is left as it is, so the model of \<open>toLowerCase\<close> is exact on
  Latin-1 text.
\<close>

definition toLowerUnit :: "nat \<Rightarrow> nat" where
  "toLowerUnit c =
     (if (65 \<le> c \<and> c \<le> 90) \<or> (192 \<le> c \<and> c \<le> 222 \<and> c \<noteq> 215) then c + 32 else c)"

definition toLowerCase :: "jsstring \<Rightarrow> jsstring" where
  "toLowerCase s = map toLowerUnit s"



fun startsWith :: "jsstring \<Rightarrow> jsstring \<Rightarrow> bool" where
  "startsWith s [] = True"
| "startsWith [] (k # ks) = False"
| "startsWith (c # cs) (k # ks) = (c = k \<and> startsWith cs ks)"

fun includesStr :: "jsstring \<Rightarrow> jsstring \<Rightarrow> bool" where
  "includesStr [] k = (k = [])"
| "includesStr (c # cs) k = (startsWith (c # cs) k \<or> includesStr cs k)"

text \<open>
  Matching under the \<open>i\<close> flag against a pattern of ASCII characters: without the
  \<open>u\<close> flag a code unit beyond U+007F never folds to an ASCII one, so a text unit
  matches a lower-case pattern unit exactly when its ASCII lower-casing equals it.
\<close>

definition asciiLower :: "nat \<Rightarrow> nat" where
  "asciiLower c = (if 65 \<le> c \<and> c \<le> 90 then c + 32 else c)"

text \<open>\<open>\d\<close> and \<open>\w\<close> of a regular expression without the \<open>u\<close> flag.\<close>

definition isDigit :: "nat \<Rightarrow> bool" where
  "isDigit c = (48 \<le> c \<and> c \<le> 57)"

definition isWordChar :: "nat \<Rightarrow> bool" where
  "isWordChar c = ((65 \<le> c \<and> c \<le> 90) \<or> (97 \<le> c \<and> c \<le> 122) \<or> isDigit c \<or> c = 95)"

definition isAsciiLetter :: "nat \<Rightarrow> bool" where
  "isAsciiLetter c = ((65 \<le> c \<and> c \<le> 90) \<or> (97 \<le> c \<and> c \<le> 122))"

text \<open>
  \<open>\b\<close> between a code unit that is (or is not) a word character and the rest of the
  text: the two sides differ.
\<close>

definition wordBoundary :: "bool \<Rightarrow> jsstring \<Rightarrow> bool" where
  "wordBoundary prevWord s = (prevWord \<noteq> (case s of [] \<Rightarrow> False | c # _ \<Rightarrow> isWordChar c))"

text \<open>\<open>s.split(re)\<close> for a regular expression that is one character class.\<close>

fun splitBy :: "(nat \<Rightarrow> bool) \<Rightarrow> jsstring \<Rightarrow> jsstring list" where
  "splitBy d [] = [[]]"
| "splitBy d (c # cs) =
     (if d c then [] # splitBy d cs
      else (case splitBy d cs of [] \<Rightarrow> [[c]] | p # ps \<Rightarrow> (c # p) # ps))"

text \<open>\<open>xs.join(sep)\<close> on an array of strings.\<close>

fun join :: "jsstring \<Rightarrow> jsstring list \<Rightarrow> jsstring" where
  "join sep [] = []"
| "join sep [x] = x"
| "join sep (x # y # ys) = x @ sep @ join sep (y # ys)"

section \<open>The Normalizer (chatbot.ts, normalizeParsed)\<close>

text \<open>
  \<open>normalizeParsed\<close> takes a value of type \<open>any\<close>: a record loaded from storage. The
  values are those of JSON together with \<open>undefined\<close>; an object is an association list
  of its own properties in insertion order. Numbers are never inspected.
\<close>

datatype jsval =
    JUndefined
  | JNull
  | JBool bool
  | JNum real
  | JStr jsstring
  | JArr "jsval list"
  | JObj "(jsstring \<times> jsval) list"

datatype js_error = TypeError

text \<open>
  \<open>v.k\<close> for one of the property names the Normalizer reads. On \<open>null\<close> and
  \<open>undefined\<close> the read throws a TypeError; on an object it is the property or
  \<open>undefined\<close>; arrays, strings, numbers and booleans have no property of these names.
\<close>

fun getProp :: "jsval \<Rightarrow> jsstring \<Rightarrow> js_error + jsval" where
  "getProp JUndefined k = Inl TypeError"
| "getProp JNull k = Inl TypeError"
| "getProp (JObj kvs) k = Inr (case map_of kvs k of None \<Rightarrow> JUndefined | Some v \<Rightarrow> v)"
| "getProp v k = Inr JUndefined"

text \<open>A read that is known not to throw.\<close>

definition readProp :: "jsval \<Rightarrow> jsstring \<Rightarrow> jsval" where
  "readProp v k = (case getProp v k of Inl e \<Rightarrow> JUndefined | Inr x \<Rightarrow> x)"

text \<open>\<open>a ?? b\<close>\<close>

definition nullish :: "jsval \<Rightarrow> bool" where
  "nullish v = (v = JUndefined \<or> v = JNull)"

definition coalesce :: "jsval \<Rightarrow> jsval \<Rightarrow> jsval" where
  "coalesce a b = (if nullish a then b else a)"

fun isArray :: "jsval \<Rightarrow> bool" where
  "isArray (JArr xs) = True"
| "isArray v = False"

text \<open>\<open>Array.isArray(a) ? a : []\<close>\<close>

definition arrayOr :: "jsval \<Rightarrow> jsval" where
  "arrayOr a = (if isArray a then a else JArr [])"

definition defaultContact :: jsval where
  "defaultContact =
     JObj [(js ''name'', JStr []), (js ''email'', JStr []),
           (js ''phone'', JStr []), (js ''location'', JStr [])]"

text \<open>
  The object literal of \<open>normalizeParsed\<close>, built from the ten property reads. The
  reads never throw once the first one has not.
\<close>

definition normalizeObj :: "(jsstring \<Rightarrow> jsval) \<Rightarrow> jsval" where
  "normalizeObj p =
     JObj [(js ''objective_or_summary'', coalesce (p (js ''objective_or_summary'')) JNull),
           (js ''skills_or_tech_stack'', arrayOr (p (js ''skills_or_tech_stack''))),
           (js ''education'', arrayOr (p (js ''education''))),
           (js ''experience'', arrayOr (p (js ''experience''))),
           (js ''projects'', arrayOr (p (js ''projects''))),
           (js ''certifications'', arrayOr (p (js ''certifications''))),
           (js ''languages'', arrayOr (p (js ''languages''))),
           (js ''contact_information'', coalesce (p (js ''contact_information'')) defaultContact),
           (js ''_raw_sections'', coalesce (p (js ''_raw_sections'')) (JObj [])),
           (js ''_raw_text'', coalesce (p (js ''_raw_text'')) JUndefined)]"

definition normalizeParsed :: "jsval \<Rightarrow> js_error + jsval" where
  "normalizeParsed parsed =
     (case getProp parsed (js ''objective_or_summary'') of
        Inl e \<Rightarrow> Inl e
      | Inr _ \<Rightarrow> Inr (normalizeObj (readProp parsed)))"

section \<open>The canonical record (types.ts)\<close>

text \<open>
  The interfaces of \<open>types.ts\<close>. Every field of an entry is optional: \<open>None\<close> is an
  absent property. \<open>_raw_sections\<close> and \<open>_raw_text\<close> are the two properties that the
  parser and the responder attach to the record; \<open>_raw_sections\<close> has one optional
  string per section kind, and an absent \<open>_raw_sections\<close> reads like the empty one.
\<close>

datatype SectionKind =
  Objective | Skills | Education | Experience | Projects | Certifications | Languages

record ContactInfo =
  name :: "jsstring option"
  email :: "jsstring option"
  phone :: "jsstring option"
  location :: "jsstring option"

record EducationEntry =
  institution :: "jsstring option"
  degree :: "jsstring option"
  field :: "jsstring option"
  year :: "jsstring option"
  edu_details :: "jsstring option"

record ExperienceEntry =
  company :: "jsstring option"
  position :: "jsstring option"
  duration :: "jsstring option"
  responsibilities :: "jsstring list option"
  exp_details :: "jsstring option"

record ProjectEntry =
  proj_name :: "jsstring option"
  description :: "jsstring option"
  technologies :: "jsstring list option"
  proj_details :: "jsstring option"

record ResumeData =
  objective_or_summary :: "jsstring option"
  skills_or_tech_stack :: "jsstring list"
  education :: "EducationEntry list"
  experience :: "ExperienceEntry list"
  projects :: "ProjectEntry list"
  certifications :: "jsstring list"
  languages :: "jsstring list"
  contact_information :: ContactInfo
  raw_sections :: "SectionKind \<Rightarrow> jsstring option"
  raw_text :: "jsstring option"

text \<open>Truthiness of an optional string, and \<open>x || ""\<close>.\<close>

fun truthy :: "jsstring option \<Rightarrow> bool" where
  "truthy None = False"
| "truthy (Some s) = (s \<noteq> [])"

fun orEmpty :: "jsstring option \<Rightarrow> jsstring" where
  "orEmpty None = []"
| "orEmpty (Some s) = s"

section \<open>The deterministic responder (chatbot.ts)\<close>

definition FALLBACK :: jsstring where
  "FALLBACK = js ''The resume does not contain this information.''"

definition HELP :: jsstring where
  "HELP = js (''Please ask a question about the resume. Try: '' @ [CHR 0x27] @ ''skills'' @ [CHR 0x27]
              @ '', '' @ [CHR 0x27] @ ''experience'' @ [CHR 0x27]
              @ '', '' @ [CHR 0x27] @ ''education'' @ [CHR 0x27]
              @ '', '' @ [CHR 0x27] @ ''projects'' @ [CHR 0x27]
              @ '', '' @ [CHR 0x27] @ ''contact'' @ [CHR 0x27]
              @ '', or '' @ [CHR 0x27] @ ''summary'' @ [CHR 0x27] @ ''.'')"

text \<open>The em dash U+2014 and the bullet U+2022 of the template strings.\<close>

definition emDash :: jsstring where
  "emDash = [8212]"

definition bullet :: jsstring where
  "bullet = [8226]"

text \<open>\<open>formatList\<close>: \<open>null\<close> on the empty list, else one \<open>- **item**\<close> line per item.\<close>

definition formatList :: "jsstring list \<Rightarrow> jsstring option" where
  "formatList items =
     (if items = [] then None
      else Some (join (js [CHR 0x0A]) (map (\<lambda>it. js ''- **'' @ it @ js ''**'') items)))"

text \<open>\<open>extractSkillNames\<close> on an array of strings: trim each, drop the empty ones.\<close>

definition extractSkillNames :: "jsstring list \<Rightarrow> jsstring list" where
  "extractSkillNames skillsRaw = filter (\<lambda>s. s \<noteq> []) (map trim skillsRaw)"

text \<open>\<open>ks.some((k) => q === k || q.includes(k))\<close>\<close>

definition someKeyword :: "string list \<Rightarrow> jsstring \<Rightarrow> bool" where
  "someKeyword ks q = list_ex (\<lambda>k. q = js k \<or> includesStr q (js k)) ks"

definition isSkillQuery :: "jsstring \<Rightarrow> bool" where
  "isSkillQuery = someKeyword [''skill'', ''skills'', ''technical skills'', ''tech'', ''tech stack'',
                               ''technologies'', ''competencies'']"

definition isExperienceQuery :: "jsstring \<Rightarrow> bool" where
  "isExperienceQuery = someKeyword [''experience'', ''work'', ''employment'', ''jobs'', ''job'',
                                    ''work history'', ''career'']"

definition isEducationQuery :: "jsstring \<Rightarrow> bool" where
  "isEducationQuery = someKeyword [''education'', ''degree'', ''college'', ''university'',
                                   ''qualification'', ''academic'']"

definition isProjectsQuery :: "jsstring \<Rightarrow> bool" where
  "isProjectsQuery = someKeyword [''projects'', ''project'', ''portfolio'', ''what projects'']"

definition isCertificationsQuery :: "jsstring \<Rightarrow> bool" where
  "isCertificationsQuery = someKeyword [''certifications'', ''certificate'', ''licenses'',
                                        ''certification'', ''credentials'']"

definition isContactQuery :: "jsstring \<Rightarrow> bool" where
  "isContactQuery = someKeyword [''contact'', ''email'', ''phone'', ''contact information'',
                                 ''phone number'']"

definition isSummaryQuery :: "jsstring \<Rightarrow> bool" where
  "isSummaryQuery = someKeyword [''summary'', ''about'', ''objective'', ''overview'', ''profile'']"

definition isLanguagesQuery :: "jsstring \<Rightarrow> bool" where
  "isLanguagesQuery = someKeyword [''languages'', ''language'', ''language skills'']"

text \<open>
  \<open>const raw = parsed._raw_sections?.kind; if (raw && raw.trim().length > 0) return raw.trim();\<close>
  The result is the text to return, or \<open>None\<close> when the branch goes on to the
  structured entries.
\<close>

definition rawAnswer :: "ResumeData \<Rightarrow> SectionKind \<Rightarrow> jsstring option" where
  "rawAnswer parsed kind =
     (case raw_sections parsed kind of
        None \<Rightarrow> None
      | Some raw \<Rightarrow> if raw \<noteq> [] \<and> length (trim raw) > 0 then Some (trim raw) else None)"

text \<open>
  One line per experience entry. \<open>title\<close>, \<open>role\<close>, \<open>organization\<close>, \<open>employer\<close>,
  \<open>start_date\<close>, \<open>start_year\<close>, \<open>from\<close>, \<open>end_date\<close>, \<open>end_year\<close>, \<open>to\<close> and
  \<open>description\<close> are not properties of an \<open>ExperienceEntry\<close> and read as \<open>undefined\<close>,
  so \<open>end\<close> is the empty string.
\<close>

definition experienceLine :: "ExperienceEntry \<Rightarrow> jsstring" where
  "experienceLine e =
     (let title = trim (orEmpty (position e));
          org = trim (orEmpty (company e));
          start = orEmpty (duration e);
          end_str = [];
          dateRange = (if start \<noteq> [] \<or> end_str \<noteq> []
                       then js '' '' @ emDash @ js '' '' @ start
                            @ (if start \<noteq> [] \<and> end_str \<noteq> [] then js '' to '' else []) @ end_str
                       else []);
          primary = (if title \<noteq> [] then js ''**'' @ title @ js ''**''
                     else if org \<noteq> [] then js ''**'' @ org @ js ''**'' else []);
          orgText = (if title \<noteq> [] \<and> org \<noteq> [] then js '', '' @ org
                     else if org \<noteq> [] then js ''**'' @ org @ js ''**'' else []);
          desc = orEmpty (exp_details e);
          resps = (case responsibilities e of None \<Rightarrow> [] | Some rs \<Rightarrow> rs);
          respText = (if length resps > 0
                      then js [CHR 0x0A, CHR '' '', CHR '' '']
                           @ join (js [CHR 0x0A, CHR '' '', CHR '' ''])
                                  (map (\<lambda>r. bullet @ js '' '' @ r) resps)
                      else [])
      in js ''- '' @ primary @ orgText @ dateRange
         @ (if desc \<noteq> [] then js [CHR 0x0A, CHR '' '', CHR '' ''] @ desc else []) @ respText)"

text \<open>
  \<open>JSON.stringify\<close> of a string: the quoted string with the escapes of
  \<open>QuoteJSONString\<close> (short escapes, \<open>\u00xx\<close> for the other control characters and
  \<open>\udxxx\<close> for a surrogate that has no partner).
\<close>

definition hexDigit :: "nat \<Rightarrow> nat" where
  "hexDigit n = (if n < 10 then 48 + n else 87 + n)"

definition unicodeEscape :: "nat \<Rightarrow> jsstring" where
  "unicodeEscape c =
     [92, 117, hexDigit (c div 4096 mod 16), hexDigit (c div 256 mod 16),
      hexDigit (c div 16 mod 16), hexDigit (c mod 16)]"

definition isLeadSurrogate :: "nat \<Rightarrow> bool" where
  "isLeadSurrogate c = (55296 \<le> c \<and> c \<le> 56319)"

definition isTrailSurrogate :: "nat \<Rightarrow> bool" where
  "isTrailSurrogate c = (56320 \<le> c \<and> c \<le> 57343)"

fun quoteJSONBody :: "jsstring \<Rightarrow> jsstring" where
  "quoteJSONBody [] = []"
| "quoteJSONBody (c # cs) =
     (if c = 8 then [92, 98] @ quoteJSONBody cs
      else if c = 9 then [92, 116] @ quoteJSONBody cs
      else if c = 10 then [92, 110] @ quoteJSONBody cs
      else if c = 12 then [92, 102] @ quoteJSONBody cs
      else if c = 13 then [92, 114] @ quoteJSONBody cs
      else if c = 34 then [92, 34] @ quoteJSONBody cs
      else if c = 92 then [92, 92] @ quoteJSONBody cs
      else if c < 32 then unicodeEscape c @ quoteJSONBody cs
      else if isLeadSurrogate c then
        (case cs of
           d # ds \<Rightarrow> if isTrailSurrogate d then c # d # quoteJSONBody ds
                     else unicodeEscape c @ quoteJSONBody cs
         | [] \<Rightarrow> unicodeEscape c)
      else if isTrailSurrogate c then unicodeEscape c @ quoteJSONBody cs
      else c # quoteJSONBody cs)"

definition quoteJSONString :: "jsstring \<Rightarrow> jsstring" where
  "quoteJSONString s = [34] @ quoteJSONBody s @ [34]"

text \<open>
  \<open>JSON.stringify(e)\<close> of an education entry. JavaScript writes the properties in
  insertion order, which a record does not keep; the model writes the properties that
  are present in the order of the interface declaration.
\<close>

definition stringifyEducation :: "EducationEntry \<Rightarrow> jsstring" where
  "stringifyEducation e =
     (let member = (\<lambda>k v. case v of None \<Rightarrow> []
                                   | Some s \<Rightarrow> [quoteJSONString (js k) @ js '':'' @ quoteJSONString s])
      in js ''{''
         @ join (js '','')
             (member ''institution'' (institution e) @ member ''degree'' (degree e)
              @ member ''field'' (field e) @ member ''year'' (year e)
              @ member ''details'' (edu_details e))
         @ js ''}'')"

text \<open>
  One line per education entry; \<open>title\<close>, \<open>school\<close> and \<open>end_year\<close> are not
  properties of an \<open>EducationEntry\<close>.
\<close>

definition educationLine :: "EducationEntry \<Rightarrow> jsstring" where
  "educationLine e =
     (let deg = trim (orEmpty (degree e));
          inst = trim (orEmpty (institution e));
          fld = trim (orEmpty (field e));
          yr = trim (orEmpty (year e));
          years = (if yr \<noteq> [] then js '' '' @ emDash @ js '' '' @ yr else []);
          fieldText = (if fld \<noteq> [] then js '' in '' @ fld else [])
      in if deg \<noteq> [] \<and> inst \<noteq> [] then js ''- **'' @ deg @ js ''**'' @ fieldText @ js '', '' @ inst @ years
         else if deg \<noteq> [] then js ''- **'' @ deg @ js ''**'' @ fieldText @ years
         else if inst \<noteq> [] then js ''- **'' @ inst @ js ''**'' @ years
         else if truthy (edu_details e) then js ''- '' @ orEmpty (edu_details e) @ years
         else js ''- '' @ stringifyEducation e)"

text \<open>
  One line per project; \<open>title\<close> is not a property of a \<open>ProjectEntry\<close>, and
  \<open>String(p)\<close> of an object is \<open>[object Object]\<close>, shorter than the 180 code units
  of the \<open>slice\<close>.
\<close>

definition projectLine :: "ProjectEntry \<Rightarrow> jsstring" where
  "projectLine p =
     (let title = trim (orEmpty (proj_name p));
          desc = (if truthy (description p) then orEmpty (description p)
                  else orEmpty (proj_details p));
          techs = (case technologies p of None \<Rightarrow> [] | Some ts \<Rightarrow> ts);
          techText = (if length techs > 0 then js '' ('' @ join (js '', '') techs @ js '')'' else [])
      in if title \<noteq> [] then
           js ''- **'' @ title @ js ''**''
           @ (if desc \<noteq> [] then js '' '' @ emDash @ js '' '' @ desc else []) @ techText
         else if desc \<noteq> [] then js ''- '' @ desc @ techText
         else js ''- '' @ take 180 (js ''[object Object]''))"

definition contactParts :: "ContactInfo \<Rightarrow> jsstring list" where
  "contactParts ci =
     (if truthy (name ci) then [js ''- **Name:** '' @ orEmpty (name ci)] else [])
     @ (if truthy (email ci) then [js ''- **Email:** '' @ orEmpty (email ci)] else [])
     @ (if truthy (phone ci) then [js ''- **Phone:** '' @ orEmpty (phone ci)] else [])
     @ (if truthy (location ci) then [js ''- **Location:** '' @ orEmpty (location ci)] else [])"

text \<open>
  \<open>answerFromParsedDeterministic\<close>. The eight intents are tried in the order of the
  source; each branch returns.
\<close>

definition answerFromParsedDeterministic :: "ResumeData \<Rightarrow> jsstring \<Rightarrow> jsstring" where
  "answerFromParsedDeterministic parsed q =
     (if isSkillQuery q then
        (case rawAnswer parsed Skills of
           Some r \<Rightarrow> r
         | None \<Rightarrow>
             (let skills = extractSkillNames (skills_or_tech_stack parsed)
              in if length skills = 0 then FALLBACK
                 else (case formatList skills of
                         None \<Rightarrow> FALLBACK
                       | Some formatted \<Rightarrow> if formatted \<noteq> [] then formatted else FALLBACK)))
      else if isExperienceQuery q then
        (case rawAnswer parsed Experience of
           Some r \<Rightarrow> r
         | None \<Rightarrow>
             (let ex = experience parsed
              in if length ex = 0 then FALLBACK
                 else join (js [CHR 0x0A]) (map experienceLine ex)))
      else if isEducationQuery q then
        (case rawAnswer parsed Education of
           Some r \<Rightarrow> r
         | None \<Rightarrow>
             (let ed = education parsed
              in if length ed = 0 then FALLBACK
                 else join (js [CHR 0x0A]) (map educationLine ed)))
      else if isProjectsQuery q then
        (case rawAnswer parsed Projects of
           Some r \<Rightarrow> r
         | None \<Rightarrow>
             (let pr = projects parsed
              in if length pr = 0 then FALLBACK
                 else join (js [CHR 0x0A]) (map projectLine pr)))
      else if isCertificationsQuery q then
        (case rawAnswer parsed Certifications of
           Some r \<Rightarrow> r
         | None \<Rightarrow>
             (let c = certifications parsed
              in if length c = 0 then FALLBACK
                 else join (js [CHR 0x0A]) (map (\<lambda>it. js ''- **'' @ it @ js ''**'') c)))
      else if isContactQuery q then
        (let parts = contactParts (contact_information parsed)
         in if length parts = 0 then FALLBACK else join (js [CHR 0x0A]) parts)
      else if isSummaryQuery q then
        (case rawAnswer parsed Objective of
           Some r \<Rightarrow> r
         | None \<Rightarrow>
             (let text = orEmpty (objective_or_summary parsed)
              in if text = [] \<or> trim text = [] then FALLBACK else trim text))
      else if isLanguagesQuery q then
        (case rawAnswer parsed Languages of
           Some r \<Rightarrow> r
         | None \<Rightarrow>
             (let langs = languages parsed
              in if length langs = 0 then FALLBACK
                 else (case formatList langs of
                         None \<Rightarrow> FALLBACK
                       | Some formatted \<Rightarrow> if formatted \<noteq> [] then formatted else FALLBACK)))
      else if length q = 0 then HELP
      else FALLBACK)"

section \<open>Field extractors of the enhanced parser\<close>

text \<open>
  \<open>/^[A-Z\s:]+$/\<close>: a non-empty line of capital letters A..Z, white space and colons.
\<close>

definition isUpperHeader :: "jsstring \<Rightarrow> bool" where
  "isUpperHeader line =
     (line \<noteq> [] \<and> list_all (\<lambda>c. (65 \<le> c \<and> c \<le> 90) \<or> isSpace c \<or> c = 58) line)"

subsection \<open>extractSkills\<close>

definition techKeywords :: "jsstring list" where
  "techKeywords = map js
     [''javascript'', ''typescript'', ''python'', ''java'', ''c++'', ''c#'', ''php'', ''ruby'', ''go'',
      ''rust'', ''swift'', ''kotlin'',
      ''react'', ''angular'', ''vue'', ''node'', ''express'', ''django'', ''flask'', ''spring'',
      ''laravel'', ''rails'',
      ''html'', ''css'', ''sass'', ''scss'', ''less'', ''bootstrap'', ''tailwind'', ''material-ui'',
      ''sql'', ''mysql'', ''postgresql'', ''mongodb'', ''redis'', ''elasticsearch'', ''oracle'',
      ''aws'', ''azure'', ''gcp'', ''docker'', ''kubernetes'', ''jenkins'', ''git'', ''github'',
      ''gitlab'',
      ''linux'', ''windows'', ''macos'', ''unix'',
      ''agile'', ''scrum'', ''devops'', ''ci/cd'', ''microservices'', ''rest'', ''graphql'', ''api'']"

text \<open>\<open>/[,|\<bullet>\<cdot>\n\t]/\<close>: comma, bar, bullet U+2022, middle dot U+00B7, LF, TAB.\<close>

definition isSkillDelimiter :: "nat \<Rightarrow> bool" where
  "isSkillDelimiter c = (c \<in> {44, 124, 8226, 183, 10, 9})"

text \<open>
  \<open>replace(/^[-\<bullet>\<cdot>\d.)\s]+/, '')\<close>: the longest prefix of hyphens, bullets, middle dots,
  digits, full stops, closing parentheses and white space is removed.
\<close>

definition isLeadingMarker :: "nat \<Rightarrow> bool" where
  "isLeadingMarker c = (c \<in> {45, 8226, 183, 46, 41} \<or> isDigit c \<or> isSpace c)"

definition stripLeadingMarkers :: "jsstring \<Rightarrow> jsstring" where
  "stripLeadingMarkers s = dropWhile isLeadingMarker s"

definition nonSkillWords :: "jsstring list" where
  "nonSkillWords = map js
     [''and'', ''or'', ''the'', ''with'', ''using'', ''experience'', ''years'', ''proficient'']"

definition nonSkillWordsLenient :: "jsstring list" where
  "nonSkillWordsLenient = map js
     [''and'', ''or'', ''the'', ''with'', ''using'', ''experience'', ''years'', ''proficient'',
      ''skills'', ''technical'']"

text \<open>\<open>Set.prototype.add\<close> on a set kept in insertion order.\<close>

definition setAdd :: "jsstring list \<Rightarrow> jsstring \<Rightarrow> jsstring list" where
  "setAdd skills x = (if x \<in> set skills then skills else skills @ [x])"

text \<open>\<open>techKeywords.some(keyword => lowerTrimmed.includes(keyword) || keyword.includes(lowerTrimmed))\<close>\<close>

definition isTechKeyword :: "jsstring \<Rightarrow> bool" where
  "isTechKeyword lowerTrimmed =
     list_ex (\<lambda>keyword. includesStr lowerTrimmed keyword \<or> includesStr keyword lowerTrimmed)
       techKeywords"

text \<open>The body of the first pass for one part of a line.\<close>

definition strictPart :: "jsstring list \<Rightarrow> jsstring \<Rightarrow> jsstring list" where
  "strictPart skills part =
     (let trimmed = trim (stripLeadingMarkers (trim part))
      in if length trimmed > 1 \<and> length trimmed < 100 then
           (let lowerTrimmed = toLowerCase trimmed
            in if isTechKeyword lowerTrimmed then setAdd skills trimmed
               else if length trimmed > 2 then
                 (if lowerTrimmed \<notin> set nonSkillWords then setAdd skills trimmed else skills)
               else skills)
         else skills)"

definition strictLine :: "jsstring list \<Rightarrow> jsstring \<Rightarrow> jsstring list" where
  "strictLine skills line =
     (if length line < 30 \<and> isUpperHeader line then skills
      else foldl strictPart skills (splitBy isSkillDelimiter line))"

text \<open>The body of the second, lenient pass; \<open>/^\d+$/\<close> is a non-empty run of digits.\<close>

definition lenientPart :: "jsstring list \<Rightarrow> jsstring \<Rightarrow> jsstring list" where
  "lenientPart allSkills part =
     (let trimmed = trim (stripLeadingMarkers part)
      in if length trimmed > 1 \<and> length trimmed < 50 then
           (let lowerTrimmed = toLowerCase trimmed
            in if lowerTrimmed \<notin> set nonSkillWordsLenient
                  \<and> \<not> (lowerTrimmed \<noteq> [] \<and> list_all isDigit lowerTrimmed)
               then allSkills @ [trimmed] else allSkills)
         else allSkills)"

definition lenientLine :: "jsstring list \<Rightarrow> jsstring \<Rightarrow> jsstring list" where
  "lenientLine allSkills line =
     (if length line < 30 \<and> isUpperHeader line then allSkills
      else foldl lenientPart allSkills (splitBy isSkillDelimiter line))"

text \<open>
  \<open>extractSkills\<close>: the first pass fills the set \<open>skills\<close>; with fewer than three
  elements the second pass fills \<open>allSkills\<close> and the result is
  \<open>Array.from(new Set([...skills, ...allSkills]))\<close>.
\<close>

definition extractSkills :: "jsstring list \<Rightarrow> jsstring list" where
  "extractSkills lines =
     (let skills = foldl strictLine [] lines
      in if length skills < 3 then
           (let allSkills = foldl lenientLine [] lines
            in foldl setAdd [] (skills @ allSkills))
         else skills)"

subsection \<open>extractEducation\<close>

text \<open>
  \<open>line.match(/\b(19|20)\d{2}\b/)\<close>: the first four digits that begin with 19 or 20 and
  have no word character right before or after them. \<open>prevWord\<close> tells whether the
  code unit before the position is a word character.
\<close>

definition yearAt :: "bool \<Rightarrow> jsstring \<Rightarrow> bool" where
  "yearAt prevWord s =
     (case s of
        a # b # c # d # rest \<Rightarrow>
          \<not> prevWord \<and> ((a = 49 \<and> b = 57) \<or> (a = 50 \<and> b = 48)) \<and> isDigit c \<and> isDigit d
          \<and> (case rest of [] \<Rightarrow> True | r # _ \<Rightarrow> \<not> isWordChar r)
      | _ \<Rightarrow> False)"

fun yearFrom :: "bool \<Rightarrow> jsstring \<Rightarrow> jsstring option" where
  "yearFrom prevWord [] = None"
| "yearFrom prevWord (c # cs) =
     (if yearAt prevWord (c # cs) then Some (take 4 (c # cs)) else yearFrom (isWordChar c) cs)"

definition yearMatch :: "jsstring \<Rightarrow> jsstring option" where
  "yearMatch line = yearFrom False line"

text \<open>\<open>Object.keys(currentEntry).length > 0\<close>\<close>

definition eduHasKeys :: "EducationEntry \<Rightarrow> bool" where
  "eduHasKeys e = (institution e \<noteq> None \<or> degree e \<noteq> None \<or> field e \<noteq> None
                   \<or> year e \<noteq> None \<or> edu_details e \<noteq> None)"

definition emptyEducation :: EducationEntry where
  "emptyEducation = \<lparr>institution = None, degree = None, field = None, year = None,
                      edu_details = None\<rparr>"

text \<open>The loop body: the state is \<open>(entries, currentEntry)\<close>.\<close>

definition educationStep ::
  "EducationEntry list \<times> EducationEntry \<Rightarrow> jsstring \<Rightarrow> EducationEntry list \<times> EducationEntry" where
  "educationStep st line =
     (let entries = fst st; currentEntry = snd st
      in case yearMatch line of
           Some y \<Rightarrow>
             ((if eduHasKeys currentEntry then entries @ [currentEntry] else entries),
              emptyEducation\<lparr>year := Some y, edu_details := Some line\<rparr>)
         | None \<Rightarrow>
             if \<not> truthy (institution currentEntry) \<and> length line > 3
             then (entries, currentEntry\<lparr>institution := Some line\<rparr>)
             else if \<not> truthy (degree currentEntry) \<and> length line > 3
             then (entries, currentEntry\<lparr>degree := Some line\<rparr>)
             else if truthy (degree currentEntry)
             then (entries,
                   currentEntry\<lparr>edu_details := Some (orEmpty (edu_details currentEntry) @ js '' '' @ line)\<rparr>)
             else (entries, currentEntry))"

definition extractEducation :: "jsstring list \<Rightarrow> EducationEntry list" where
  "extractEducation lines =
     (let st = foldl educationStep ([], emptyEducation) lines
      in if eduHasKeys (snd st) then fst st @ [snd st] else fst st)"

subsection \<open>extractExperience\<close>

text \<open>
  The date pattern
  \<open>/\b(Jan|Feb|Mar|Apr|May|Jun|Jul|Aug|Sep|Oct|Nov|Dec)[a-z]*\s+\d{4}\b|\b\d{4}\s*[-U+2013 U+2014]\s*(present|current|\d{4})\b/i\<close>,
  tested at one position of the line. In both alternatives each repetition is followed
  by a unit from a disjoint class, so only the longest repetition can match.
\<close>

definition months :: "jsstring list" where
  "months = map js [''jan'', ''feb'', ''mar'', ''apr'', ''may'', ''jun'', ''jul'', ''aug'', ''sep'',
                    ''oct'', ''nov'', ''dec'']"

text \<open>\<open>\d{4}\b\<close> at the start of \<open>s\<close>.\<close>

definition fourDigitsThenBoundary :: "jsstring \<Rightarrow> bool" where
  "fourDigitsThenBoundary s =
     (case s of
        a # b # c # d # rest \<Rightarrow>
          isDigit a \<and> isDigit b \<and> isDigit c \<and> isDigit d
          \<and> (case rest of [] \<Rightarrow> True | r # _ \<Rightarrow> \<not> isWordChar r)
      | _ \<Rightarrow> False)"

text \<open>A word of ASCII letters, matched without regard to case, then \<open>\b\<close>.\<close>

definition wordThenBoundary :: "jsstring \<Rightarrow> jsstring \<Rightarrow> bool" where
  "wordThenBoundary w s =
     (startsWith (map asciiLower s) w
      \<and> (case drop (length w) s of [] \<Rightarrow> True | r # _ \<Rightarrow> \<not> isWordChar r))"

definition monthYearAt :: "bool \<Rightarrow> jsstring \<Rightarrow> bool" where
  "monthYearAt prevWord s =
     (\<not> prevWord
      \<and> list_ex (\<lambda>m. startsWith (map asciiLower s) m) months
      \<and> (let afterLetters = dropWhile isAsciiLetter (drop 3 s)
         in (case afterLetters of [] \<Rightarrow> False | w # _ \<Rightarrow> isSpace w)
            \<and> fourDigitsThenBoundary (dropWhile isSpace afterLetters)))"

definition yearRangeAt :: "bool \<Rightarrow> jsstring \<Rightarrow> bool" where
  "yearRangeAt prevWord s =
     (\<not> prevWord
      \<and> (case s of
           a # b # c # d # rest \<Rightarrow>
             isDigit a \<and> isDigit b \<and> isDigit c \<and> isDigit d
             \<and> (case dropWhile isSpace rest of
                  [] \<Rightarrow> False
                | dash # rest' \<Rightarrow>
                    dash \<in> {45, 8211, 8212}
                    \<and> (let target = dropWhile isSpace rest'
                       in wordThenBoundary (js ''present'') target
                          \<or> wordThenBoundary (js ''current'') target
                          \<or> fourDigitsThenBoundary target))
         | _ \<Rightarrow> False))"

fun dateFrom :: "bool \<Rightarrow> jsstring \<Rightarrow> bool" where
  "dateFrom prevWord [] = False"
| "dateFrom prevWord (c # cs) =
     (monthYearAt prevWord (c # cs) \<or> yearRangeAt prevWord (c # cs) \<or> dateFrom (isWordChar c) cs)"

definition dateMatch :: "jsstring \<Rightarrow> bool" where
  "dateMatch line = dateFrom False line"

text \<open>\<open>/^[-\<bullet>\<cdot>]\s*/\<close>: the line begins with a hyphen, a bullet or a middle dot.\<close>

definition isBulletLine :: "jsstring \<Rightarrow> bool" where
  "isBulletLine line = (case line of [] \<Rightarrow> False | c # _ \<Rightarrow> c \<in> {45, 8226, 183})"

definition stripBullet :: "jsstring \<Rightarrow> jsstring" where
  "stripBullet line = (if isBulletLine line then dropWhile isSpace (tl line) else line)"

definition emptyExperience :: ExperienceEntry where
  "emptyExperience = \<lparr>company = None, position = None, duration = None,
                       responsibilities = None, exp_details = None\<rparr>"

definition expHasKeys :: "ExperienceEntry \<Rightarrow> bool" where
  "expHasKeys e = (company e \<noteq> None \<or> position e \<noteq> None \<or> duration e \<noteq> None
                   \<or> responsibilities e \<noteq> None \<or> exp_details e \<noteq> None)"

text \<open>The loop body: the state is \<open>(entries, currentEntry, responsibilities)\<close>.\<close>

definition experienceStep ::
  "ExperienceEntry list \<times> ExperienceEntry \<times> jsstring list \<Rightarrow> jsstring
   \<Rightarrow> ExperienceEntry list \<times> ExperienceEntry \<times> jsstring list" where
  "experienceStep st line =
     (let entries = fst st; currentEntry = fst (snd st); resps = snd (snd st)
      in if dateMatch line then
           (if expHasKeys currentEntry
            then (entries @ [currentEntry\<lparr>responsibilities := Some resps\<rparr>],
                  emptyExperience\<lparr>duration := Some line\<rparr>, [])
            else (entries, emptyExperience\<lparr>duration := Some line\<rparr>, resps))
         else if isBulletLine line then
           (entries, currentEntry, resps @ [trim (stripBullet line)])
         else if \<not> truthy (company currentEntry) \<and> length line > 2 then
           (entries, currentEntry\<lparr>company := Some line\<rparr>, resps)
         else if \<not> truthy (position currentEntry) \<and> length line > 2 then
           (entries, currentEntry\<lparr>position := Some line\<rparr>, resps)
         else if length (trim line) > 0 then
           (entries,
            currentEntry\<lparr>exp_details := Some (orEmpty (exp_details currentEntry) @ js '' '' @ line)\<rparr>,
            resps)
         else (entries, currentEntry, resps))"

definition extractExperience :: "jsstring list \<Rightarrow> ExperienceEntry list" where
  "extractExperience lines =
     (let st = foldl experienceStep ([], emptyExperience, []) lines;
          entries = fst st; currentEntry = fst (snd st); resps = snd (snd st)
      in if expHasKeys currentEntry
         then entries @ [currentEntry\<lparr>responsibilities := Some resps\<rparr>]
         else entries)"

subsection \<open>extractProjects\<close>

definition projectTechWords :: "jsstring list" where
  "projectTechWords = map js
     [''javascript'', ''python'', ''java'', ''react'', ''node'', ''sql'', ''html'', ''css'',
      ''typescript'', ''angular'', ''vue'', ''docker'', ''aws'', ''azure'', ''git'', ''mongodb'',
      ''postgresql'', ''mysql'', ''redis'', ''linux'', ''windows'', ''api'', ''rest'', ''graphql'']"

text \<open>\<open>techPattern.test(s)\<close>: one of the words occurs in \<open>s\<close>, in any case.\<close>

definition techPattern :: "jsstring \<Rightarrow> bool" where
  "techPattern s = list_ex (\<lambda>w. includesStr (map asciiLower s) w) projectTechWords"

text \<open>\<open>/^\d{4}/\<close>\<close>

definition startsWithYear :: "jsstring \<Rightarrow> bool" where
  "startsWithYear s = (length s \<ge> 4 \<and> list_all isDigit (take 4 s))"

text \<open>\<open>/^\d+[.)]\s/\<close>: a numbered list item.\<close>

definition isNumbered :: "jsstring \<Rightarrow> bool" where
  "isNumbered s =
     (case s of
        [] \<Rightarrow> False
      | c # _ \<Rightarrow>
          isDigit c
          \<and> (case dropWhile isDigit s of
               p # w # _ \<Rightarrow> p \<in> {46, 41} \<and> isSpace w
             | _ \<Rightarrow> False))"

text \<open>\<open>replace(/^[-\<bullet>*\d.)\s]+/, '')\<close>\<close>

definition isProjectMarker :: "nat \<Rightarrow> bool" where
  "isProjectMarker c = (c \<in> {45, 8226, 42, 46, 41} \<or> isDigit c \<or> isSpace c)"

definition emptyProject :: ProjectEntry where
  "emptyProject = \<lparr>proj_name = None, description = None, technologies = None,
                    proj_details = None\<rparr>"

definition isNewProject :: "jsstring \<Rightarrow> bool" where
  "isNewProject trimmedLine =
     (startsWith trimmedLine (js ''-'') \<or> startsWith trimmedLine bullet
      \<or> startsWith trimmedLine (js ''*'') \<or> isNumbered trimmedLine
      \<or> (length trimmedLine < 80 \<and> \<not> includesStr trimmedLine (js '','')
          \<and> \<not> startsWithYear trimmedLine))"

text \<open>The loop body: the state is \<open>(entries, currentEntry)\<close>.\<close>

definition projectStep ::
  "ProjectEntry list \<times> ProjectEntry \<Rightarrow> jsstring \<Rightarrow> ProjectEntry list \<times> ProjectEntry" where
  "projectStep st line =
     (let entries = fst st; currentEntry = snd st; trimmedLine = trim line
      in if trimmedLine = [] then st
         else if isNewProject trimmedLine then
           (let entries' = (if truthy (proj_name currentEntry) \<or> truthy (description currentEntry)
                            then entries @ [currentEntry] else entries);
                cleanLine = trim (dropWhile isProjectMarker trimmedLine)
            in if cleanLine \<noteq> [] then (entries', emptyProject\<lparr>proj_name := Some cleanLine\<rparr>)
               else (entries', emptyProject))
         else if truthy (proj_name currentEntry) then
           (if \<not> truthy (description currentEntry) then
              (entries, currentEntry\<lparr>description := Some trimmedLine\<rparr>)
            else if technologies currentEntry = None then
              (if techPattern trimmedLine \<or> includesStr trimmedLine (js '','')
                  \<or> includesStr trimmedLine (js ''|'')
               then (entries,
                     currentEntry\<lparr>technologies :=
                       Some (filter (\<lambda>t. t \<noteq> [])
                               (map trim (splitBy (\<lambda>c. c \<in> {44, 124}) trimmedLine)))\<rparr>)
               else (entries,
                     currentEntry\<lparr>description :=
                       Some (orEmpty (description currentEntry) @ js '' '' @ trimmedLine)\<rparr>))
            else (entries,
                  currentEntry\<lparr>description :=
                    Some (orEmpty (description currentEntry) @ js '' '' @ trimmedLine)\<rparr>))
         else if length trimmedLine < 100 \<and> \<not> startsWithYear trimmedLine \<and> length trimmedLine > 5
         then (entries, emptyProject\<lparr>proj_name := Some trimmedLine\<rparr>)
         else (entries, currentEntry))"

text \<open>The second loop, run when the first one found no entry.\<close>

definition bareProject :: "ProjectEntry list \<Rightarrow> jsstring \<Rightarrow> ProjectEntry list" where
  "bareProject entries line =
     (let trimmed = trim line
      in if trimmed \<noteq> [] \<and> length trimmed > 10 \<and> length trimmed < 200
            \<and> \<not> startsWithYear trimmed \<and> \<not> isUpperHeader trimmed
            \<and> \<not> includesStr trimmed (js ''@'') \<and> length trimmed > 10
         then entries @ [emptyProject\<lparr>proj_name := Some trimmed, description := Some []\<rparr>]
         else entries)"

definition extractProjects :: "jsstring list \<Rightarrow> ProjectEntry list" where
  "extractProjects lines =
     (let st = foldl projectStep ([], emptyProject) lines;
          currentEntry = snd st;
          entries = (if truthy (proj_name currentEntry) \<or> truthy (description currentEntry)
                     then fst st @ [currentEntry] else fst st)
      in if length entries = 0 \<and> length lines > 0 then foldl bareProject entries lines
         else entries)"

section \<open>Regular expressions with backtracking\<close>

text \<open>
  The contact patterns need the text of the first match, which depends on the order in
  which a backtracking matcher tries its choices. A pattern is built from one code unit of
  a class, a greedy repetition \<open>class{lo,hi}\<close> (no upper bound for \<open>None\<close>), a greedy
  option \<open>r?\<close>, concatenation and \<open>\b\<close>. A position is the rest of the text together
  with the fact whether the code unit before it is a word character.
\<close>

datatype regex =
    OneOf "nat \<Rightarrow> bool"
  | Run nat "nat option" "nat \<Rightarrow> bool"
  | Maybe regex
  | Then regex regex
  | Boundary

text \<open>
  The positions at which a match of the pattern that starts at the given position can
  end, in the order in which the matcher finds them: a repetition and an option try the
  longer match first.
\<close>

fun rxEnds :: "regex \<Rightarrow> bool \<times> jsstring \<Rightarrow> (bool \<times> jsstring) list" where
  "rxEnds (OneOf cls) (prevWord, s) =
     (case s of [] \<Rightarrow> [] | c # cs \<Rightarrow> if cls c then [(isWordChar c, cs)] else [])"
| "rxEnds (Run lo hi cls) (prevWord, s) =
     (let n = length (takeWhile cls s);
          top = (case hi of None \<Rightarrow> n | Some h \<Rightarrow> min n h)
      in map (\<lambda>k. (if k = 0 then prevWord else isWordChar (s ! (k - 1)), drop k s))
             (rev [lo..<Suc top]))"
| "rxEnds (Maybe r) st = rxEnds r st @ [st]"
| "rxEnds (Then a b) st = concat (map (rxEnds b) (rxEnds a st))"
| "rxEnds Boundary (prevWord, s) = (if wordBoundary prevWord s then [(prevWord, s)] else [])"

text \<open>
  The leftmost match and, there, the first one the matcher finds: \<open>line.match(re)[0]\<close>,
  \<open>None\<close> when \<open>match\<close> returns \<open>null\<close>.
\<close>

fun rxFind :: "regex \<Rightarrow> bool \<Rightarrow> jsstring \<Rightarrow> jsstring option" where
  "rxFind r prevWord [] = (case rxEnds r (prevWord, []) of [] \<Rightarrow> None | e # _ \<Rightarrow> Some [])"
| "rxFind r prevWord (c # cs) =
     (case rxEnds r (prevWord, c # cs) of
        [] \<Rightarrow> rxFind r (isWordChar c) cs
      | e # _ \<Rightarrow> Some (take (length (c # cs) - length (snd e)) (c # cs)))"

definition regexMatch :: "regex \<Rightarrow> jsstring \<Rightarrow> jsstring option" where
  "regexMatch r line = rxFind r False line"

text \<open>A literal, and a literal of lower-case and other ASCII characters under the \<open>i\<close> flag.\<close>

fun lit :: "jsstring \<Rightarrow> regex" where
  "lit [] = Run 0 (Some 0) (\<lambda>c. False)"
| "lit [x] = OneOf (\<lambda>c. c = x)"
| "lit (x # y # ys) = Then (OneOf (\<lambda>c. c = x)) (lit (y # ys))"

fun litIgnoreCase :: "jsstring \<Rightarrow> regex" where
  "litIgnoreCase [] = Run 0 (Some 0) (\<lambda>c. False)"
| "litIgnoreCase [x] = OneOf (\<lambda>c. asciiLower c = x)"
| "litIgnoreCase (x # y # ys) = Then (OneOf (\<lambda>c. asciiLower c = x)) (litIgnoreCase (y # ys))"

section \<open>Contact extraction (first part of the loop of parseResumeTextFallback)\<close>

text \<open>\<open>/\b[A-Za-z0-9._%+-]+@[A-Za-z0-9.-]+\.[A-Z|a-z]{2,}\b/g\<close>\<close>

definition isEmailLocal :: "nat \<Rightarrow> bool" where
  "isEmailLocal c = (isAsciiLetter c \<or> isDigit c \<or> c \<in> {46, 95, 37, 43, 45})"

definition isEmailDomain :: "nat \<Rightarrow> bool" where
  "isEmailDomain c = (isAsciiLetter c \<or> isDigit c \<or> c \<in> {46, 45})"

definition isEmailTld :: "nat \<Rightarrow> bool" where
  "isEmailTld c = (isAsciiLetter c \<or> c = 124)"

definition emailRegex :: regex where
  "emailRegex =
     Then Boundary (Then (Run 1 None isEmailLocal) (Then (OneOf (\<lambda>c. c = 64))
       (Then (Run 1 None isEmailDomain) (Then (OneOf (\<lambda>c. c = 46))
         (Then (Run 2 None isEmailTld) Boundary)))))"

text \<open>\<open>/(\+?\d{1,3}[-.\s]?)?\(?\d{3}\)?[-.\s]?\d{3}[-.\s]?\d{4}/g\<close>\<close>

definition isPhoneSeparator :: "nat \<Rightarrow> bool" where
  "isPhoneSeparator c = (c \<in> {45, 46} \<or> isSpace c)"

definition phoneRegex :: regex where
  "phoneRegex =
     Then (Maybe (Then (Maybe (OneOf (\<lambda>c. c = 43)))
                   (Then (Run 1 (Some 3) isDigit) (Maybe (OneOf isPhoneSeparator)))))
       (Then (Maybe (OneOf (\<lambda>c. c = 40))) (Then (Run 3 (Some 3) isDigit)
         (Then (Maybe (OneOf (\<lambda>c. c = 41))) (Then (Maybe (OneOf isPhoneSeparator))
           (Then (Run 3 (Some 3) isDigit) (Then (Maybe (OneOf isPhoneSeparator))
             (Run 4 (Some 4) isDigit)))))))"

text \<open>\<open>/(?:https?:\/\/)?(?:www\.)?linkedin\.com\/in\/[\w-]+/gi\<close>\<close>

definition linkedinRegex :: regex where
  "linkedinRegex =
     Then (Maybe (Then (litIgnoreCase (js ''http''))
                   (Then (Maybe (litIgnoreCase (js ''s''))) (litIgnoreCase (js ''://'')))))
       (Then (Maybe (litIgnoreCase (js ''www.'')))
         (Then (litIgnoreCase (js ''linkedin.com/in/''))
           (Run 1 None (\<lambda>c. isWordChar c \<or> c = 45))))"

text \<open>
  \<open>if (m && !contact.field) contact.field = m[0]\<close> for the three patterns, on the first
  five lines.
\<close>

definition setEmail :: "jsstring \<Rightarrow> ContactInfo \<Rightarrow> ContactInfo" where
  "setEmail line ci =
     (case regexMatch emailRegex line of
        Some m \<Rightarrow> if \<not> truthy (email ci) then ci\<lparr>email := Some m\<rparr> else ci
      | None \<Rightarrow> ci)"

definition setPhone :: "jsstring \<Rightarrow> ContactInfo \<Rightarrow> ContactInfo" where
  "setPhone line ci =
     (case regexMatch phoneRegex line of
        Some m \<Rightarrow> if \<not> truthy (phone ci) then ci\<lparr>phone := Some m\<rparr> else ci
      | None \<Rightarrow> ci)"

definition setLocation :: "jsstring \<Rightarrow> ContactInfo \<Rightarrow> ContactInfo" where
  "setLocation line ci =
     (case regexMatch linkedinRegex line of
        Some m \<Rightarrow> if \<not> truthy (location ci) then ci\<lparr>location := Some m\<rparr> else ci
      | None \<Rightarrow> ci)"

section \<open>The section segmenter of the enhanced parser (parseResumeTextFallback)\<close>

text \<open>
  \<open>sectionKeywords\<close> is an object literal; \<open>Object.entries\<close> walks its keys in the
  order in which they are written.
\<close>

definition sectionOrder :: "SectionKind list" where
  "sectionOrder = [Objective, Skills, Education, Experience, Projects, Certifications, Languages]"

fun sectionKeywords :: "SectionKind \<Rightarrow> jsstring list" where
  "sectionKeywords Objective =
     map js [''objective'', ''summary'', ''profile'', ''about'', ''professional summary'']"
| "sectionKeywords Skills =
     map js [''skills'', ''technical skills'', ''tech stack'', ''technologies'', ''competencies'',
             ''expertise'', ''core competencies'', ''technical expertise'',
             ''programming languages'', ''tools'', ''software'']"
| "sectionKeywords Education =
     map js [''education'', ''academic'', ''qualification'', ''degree'', ''university'', ''college'',
             ''academic background'']"
| "sectionKeywords Experience =
     map js [''experience'', ''work history'', ''employment'', ''professional experience'',
             ''work experience'', ''career'', ''employment history'']"
| "sectionKeywords Projects =
     map js [''projects'', ''personal projects'', ''portfolio'', ''project experience'',
             ''key projects'', ''project'', ''side projects'', ''academic projects'',
             ''notable projects'']"
| "sectionKeywords Certifications =
     map js [''certifications'', ''certificates'', ''licenses'', ''certification'', ''credentials'']"
| "sectionKeywords Languages =
     map js [''languages'', ''language proficiency'', ''language skills'', ''spoken languages'']"

text \<open>The header test of one line against the keywords of one section.\<close>

definition isHeader :: "jsstring \<Rightarrow> jsstring list \<Rightarrow> bool" where
  "isHeader line keywords =
     (let lowerLine = toLowerCase line
      in list_ex (\<lambda>keyword.
           lowerLine = keyword
           \<or> lowerLine = keyword @ js '':''
           \<or> startsWith lowerLine (keyword @ js '':'')
           \<or> startsWith lowerLine (keyword @ js '' -'')
           \<or> startsWith lowerLine (keyword @ js '' '')
           \<or> (includesStr lowerLine keyword
               \<and> (length line < 60
                   \<or> isUpperHeader line
                   \<or> includesStr line (js '':'')
                   \<or> (length line < 100 \<and> \<not> includesStr line (js '','')
                       \<and> \<not> includesStr line (js ''.''))))) keywords)"

text \<open>
  \<open>processSectionBuffer\<close>. \<open>section\<close> is the empty string before the first header
  (\<open>None\<close>), and then no case of the \<open>switch\<close> applies.
\<close>

definition setRaw :: "ResumeData \<Rightarrow> SectionKind \<Rightarrow> jsstring \<Rightarrow> ResumeData" where
  "setRaw parsed kind content = parsed\<lparr>raw_sections := (raw_sections parsed)(kind \<mapsto> content)\<rparr>"

fun processSectionBuffer :: "ResumeData \<Rightarrow> SectionKind option \<Rightarrow> jsstring list \<Rightarrow> ResumeData" where
  "processSectionBuffer parsed None buffer = parsed"
| "processSectionBuffer parsed (Some Objective) buffer =
     setRaw (parsed\<lparr>objective_or_summary := Some (join (js [CHR 0x0A]) buffer)\<rparr>)
       Objective (join (js [CHR 0x0A]) buffer)"
| "processSectionBuffer parsed (Some Skills) buffer =
     (setRaw parsed Skills (join (js [CHR 0x0A]) buffer))
       \<lparr>skills_or_tech_stack := extractSkills buffer\<rparr>"
| "processSectionBuffer parsed (Some Education) buffer =
     (setRaw parsed Education (join (js [CHR 0x0A]) buffer))
       \<lparr>education := extractEducation buffer\<rparr>"
| "processSectionBuffer parsed (Some Experience) buffer =
     (setRaw parsed Experience (join (js [CHR 0x0A]) buffer))
       \<lparr>experience := extractExperience buffer\<rparr>"
| "processSectionBuffer parsed (Some Projects) buffer =
     (setRaw parsed Projects (join (js [CHR 0x0A]) buffer))
       \<lparr>projects := extractProjects buffer\<rparr>"
| "processSectionBuffer parsed (Some Certifications) buffer =
     (setRaw parsed Certifications (join (js [CHR 0x0A]) buffer))
       \<lparr>certifications := filter (\<lambda>line. length (trim line) > 0) buffer\<rparr>"
| "processSectionBuffer parsed (Some Languages) buffer =
     (setRaw parsed Languages (join (js [CHR 0x0A]) buffer))
       \<lparr>languages := filter (\<lambda>line. length (trim line) > 0) buffer\<rparr>"

text \<open>
  The state of the scan: the record under construction, \<open>currentSection\<close> and
  \<open>buffer\<close>.
\<close>

record SegState =
  parsed :: ResumeData
  currentSection :: "SectionKind option"
  buffer :: "jsstring list"

text \<open>
  The contact block of the loop body for the line with index \<open>i\<close>: e-mail, telephone
  and profile link on the first five lines, and on the first line the name, unless the
  line contains a keyword of some section
  (\<open>Object.values(sectionKeywords).flat().some(keyword => lowerLine.includes(keyword))\<close>).
\<close>

definition allKeywords :: "jsstring list" where
  "allKeywords = concat (map sectionKeywords sectionOrder)"

definition contactStep :: "nat \<Rightarrow> jsstring \<Rightarrow> ContactInfo \<Rightarrow> ContactInfo" where
  "contactStep i line ci =
     (let ci1 = (if i < 5 then setLocation line (setPhone line (setEmail line ci)) else ci)
      in if i = 0 \<and> \<not> truthy (name ci1) then
           (if \<not> list_ex (\<lambda>keyword. includesStr (toLowerCase line) keyword) allKeywords
            then ci1\<lparr>name := Some line\<rparr> else ci1)
         else ci1)"

text \<open>
  The inner loop \<open>for (const [section, keywords] of Object.entries(sectionKeywords))\<close>.
  Its \<open>continue\<close> goes on with the next section of this loop, so every section is
  tested; \<open>found\<close> is \<open>foundSection\<close>.
\<close>

fun headerLoop :: "SectionKind list \<Rightarrow> jsstring \<Rightarrow> SegState \<times> bool \<Rightarrow> SegState \<times> bool" where
  "headerLoop [] line (st, found) = (st, found)"
| "headerLoop (sec # rest) line (st, found) =
     (if isHeader line (sectionKeywords sec) then
        headerLoop rest line
          ((if length (buffer st) > 0
            then st\<lparr>parsed := processSectionBuffer (parsed st) (currentSection st) (buffer st),
                    buffer := []\<rparr>
            else st)\<lparr>currentSection := Some sec\<rparr>, True)
      else headerLoop rest line (st, found))"

text \<open>The header detection of the loop body, with the push of a line that is no header.\<close>

definition scanLine :: "SegState \<Rightarrow> jsstring \<Rightarrow> SegState" where
  "scanLine st line =
     (case headerLoop sectionOrder line (st, False) of
        (st', foundSection) \<Rightarrow>
          if \<not> foundSection \<and> length line > 0
          then st'\<lparr>buffer := buffer st' @ [line]\<rparr>
          else st')"

text \<open>The body of the outer loop for the element \<open>lines[i]\<close>.\<close>

definition segmentLine :: "SegState \<Rightarrow> nat \<times> jsstring \<Rightarrow> SegState" where
  "segmentLine st indexed =
     (let i = fst indexed; line = trim (snd indexed)
      in if line = [] then st
         else scanLine
                (st\<lparr>parsed := (parsed st)\<lparr>contact_information :=
                                 contactStep i line (contact_information (parsed st))\<rparr>\<rparr>)
                line)"

definition emptyResume :: ResumeData where
  "emptyResume =
     \<lparr>objective_or_summary = None, skills_or_tech_stack = [], education = [], experience = [],
      projects = [], certifications = [], languages = [],
      contact_information = \<lparr>name = Some [], email = Some [], phone = Some [], location = Some []\<rparr>,
      raw_sections = (\<lambda>k. None), raw_text = None\<rparr>"

text \<open>\<open>text.split('\n').filter(line => line.trim())\<close>\<close>

definition splitLines :: "jsstring \<Rightarrow> jsstring list" where
  "splitLines text = splitBy (\<lambda>c. c = 10) text"

definition nonBlankLines :: "jsstring \<Rightarrow> jsstring list" where
  "nonBlankLines text = filter (\<lambda>line. trim line \<noteq> []) (splitLines text)"

text \<open>The scan of all lines, each with its index, and the final flush of the buffer.\<close>

definition segment :: "jsstring list \<Rightarrow> ResumeData" where
  "segment lines =
     (let st = foldl segmentLine \<lparr>parsed = emptyResume, currentSection = None, buffer = []\<rparr>
                 (enumerate 0 lines)
      in if length (buffer st) > 0
         then processSectionBuffer (parsed st) (currentSection st) (buffer st)
         else parsed st)"

section \<open>The fallback skill scanner (second half of parseResumeTextFallback)\<close>

text \<open>
  The first pass over \<open>allLines\<close>: a line that contains a skills keyword and is shorter
  than 150 code units, or equals or begins with the keyword.
\<close>

definition looseSkillsHeader :: "jsstring \<Rightarrow> bool" where
  "looseSkillsHeader l =
     (let lowerLine = trim (toLowerCase l)
      in list_ex (\<lambda>keyword.
           includesStr lowerLine keyword
           \<and> (length l < 150 \<or> lowerLine = keyword \<or> startsWith lowerLine keyword))
           (sectionKeywords Skills))"

text \<open>
  \<open>isNewSection\<close>: a keyword of a section other than skills occurs in the line and the
  line is shorter than 100 code units.
\<close>

definition isOtherSection :: "jsstring \<Rightarrow> bool" where
  "isOtherSection line =
     list_ex (\<lambda>sec. sec \<noteq> Skills
                \<and> list_ex (\<lambda>keyword. includesStr (toLowerCase line) keyword \<and> length line < 100)
                     (sectionKeywords sec)) sectionOrder"

text \<open>
  The loop that collects the lines after the loose header. \<open>rest\<close> holds
  \<open>allLines[i..]\<close> and \<open>skillsLines\<close> what has been collected; leaving the recursion is
  the \<open>break\<close>.
\<close>

fun collectSkillsLines :: "jsstring list \<Rightarrow> jsstring list \<Rightarrow> jsstring list" where
  "collectSkillsLines [] skillsLines = skillsLines"
| "collectSkillsLines (raw # rest) skillsLines =
     (let line = trim raw
      in if line = [] then
           (if length skillsLines > 0 then
              (let nextNonEmpty = (case find (\<lambda>l. trim l \<noteq> []) rest of
                                     None \<Rightarrow> [] | Some l \<Rightarrow> trim l)
               in if nextNonEmpty \<noteq> [] \<and> isOtherSection nextNonEmpty then skillsLines
                  else collectSkillsLines rest skillsLines)
            else collectSkillsLines rest skillsLines)
         else if isOtherSection line then skillsLines
         else collectSkillsLines rest (skillsLines @ [line]))"

definition sweepKeywords :: "jsstring list" where
  "sweepKeywords = map js
     [''javascript'', ''typescript'', ''python'', ''java'', ''c++'', ''c#'', ''php'', ''ruby'', ''go'',
      ''rust'',
      ''react'', ''angular'', ''vue'', ''node'', ''express'', ''django'', ''flask'', ''spring'',
      ''html'', ''css'', ''sql'', ''mongodb'', ''postgresql'', ''mysql'', ''aws'', ''azure'', ''docker'',
      ''kubernetes'']"

text \<open>
  The regular expression built for one keyword, tested at one position:
  \<open>/\bc\+\+/i\<close> for \<open>c++\<close>, \<open>/\bc#/i\<close> for \<open>c#\<close> and \<open>\bkeyword\b\<close> with the
  flag \<open>i\<close> for the others (no other keyword holds a character that is escaped).
\<close>

definition sweepMatchAt :: "jsstring \<Rightarrow> bool \<Rightarrow> jsstring \<Rightarrow> bool" where
  "sweepMatchAt keyword prevWord s =
     (wordBoundary prevWord s
      \<and> startsWith (map asciiLower s) keyword
      \<and> (keyword = js ''c++'' \<or> keyword = js ''c#''
          \<or> wordBoundary (isWordChar (last (take (length keyword) s))) (drop (length keyword) s)))"

text \<open>The leftmost match: \<open>originalText.match(regex)[0]\<close>, or \<open>None\<close> for \<open>null\<close>.\<close>

fun sweepFrom :: "jsstring \<Rightarrow> bool \<Rightarrow> jsstring \<Rightarrow> jsstring option" where
  "sweepFrom keyword prevWord [] = None"
| "sweepFrom keyword prevWord (c # cs) =
     (if sweepMatchAt keyword prevWord (c # cs) then Some (take (length keyword) (c # cs))
      else sweepFrom keyword (isWordChar c) cs)"

definition regexTest :: "jsstring \<Rightarrow> jsstring \<Rightarrow> bool" where
  "regexTest keyword originalText = (sweepFrom keyword False originalText \<noteq> None)"

definition sweepStep :: "jsstring \<Rightarrow> jsstring list \<Rightarrow> jsstring \<Rightarrow> jsstring list" where
  "sweepStep originalText foundSkills keyword =
     (if regexTest keyword originalText then
        (case sweepFrom keyword False originalText of
           Some m \<Rightarrow> foundSkills @ [m]
         | None \<Rightarrow> foundSkills)
      else foundSkills)"

definition keywordSweep :: "jsstring \<Rightarrow> jsstring list" where
  "keywordSweep originalText = foldl (sweepStep originalText) [] sweepKeywords"

text \<open>The condition of the fallback, and its two tiers.\<close>

definition needsSkillFallback :: "ResumeData \<Rightarrow> bool" where
  "needsSkillFallback p =
     (length (skills_or_tech_stack p) = 0
      \<and> (case raw_sections p Skills of
           None \<Rightarrow> True
         | Some raw \<Rightarrow> raw = [] \<or> length (trim raw) = 0))"

definition skillFallback :: "jsstring \<Rightarrow> ResumeData \<Rightarrow> ResumeData" where
  "skillFallback originalText p =
     (case dropWhile (\<lambda>l. \<not> looseSkillsHeader l) (splitLines originalText) of
        header # rest \<Rightarrow>
          (let skillsLines = collectSkillsLines rest []
           in if length skillsLines > 0
              then (setRaw p Skills (join (js [CHR 0x0A]) skillsLines))
                     \<lparr>skills_or_tech_stack := extractSkills skillsLines\<rparr>
              else p)
      | [] \<Rightarrow>
          (let foundSkills = keywordSweep originalText
           in if length foundSkills > 0
              then (setRaw p Skills (join (js '', '') foundSkills))
                     \<lparr>skills_or_tech_stack := foundSkills\<rparr>
              else p))"

definition parseResumeTextFallback :: "jsstring \<Rightarrow> ResumeData" where
  "parseResumeTextFallback text =
     (let p = segment (nonBlankLines text)
      in if needsSkillFallback p then skillFallback text p else p)"

section \<open>The header loop of the plain parser (layoutlmParser.ts)\<close>

fun plainSectionKeywords :: "SectionKind \<Rightarrow> jsstring list" where
  "plainSectionKeywords Objective =
     map js [''objective'', ''summary'', ''profile'', ''about'', ''professional summary'']"
| "plainSectionKeywords Skills =
     map js [''skills'', ''technical skills'', ''tech stack'', ''technologies'', ''competencies'',
             ''expertise'']"
| "plainSectionKeywords Education =
     map js [''education'', ''academic'', ''qualification'', ''degree'', ''university'', ''college'']"
| "plainSectionKeywords Experience =
     map js [''experience'', ''work history'', ''employment'', ''professional experience'', ''work'',
             ''career'']"
| "plainSectionKeywords Projects =
     map js [''projects'', ''personal projects'', ''portfolio'', ''project experience'']"
| "plainSectionKeywords Certifications =
     map js [''certifications'', ''certificates'', ''licenses'', ''certification'']"
| "plainSectionKeywords Languages =
     map js [''languages'', ''language proficiency'', ''language skills'']"

definition isPlainHeader :: "jsstring \<Rightarrow> jsstring list \<Rightarrow> bool" where
  "isPlainHeader line keywords =
     list_ex (\<lambda>keyword. includesStr (toLowerCase line) keyword \<and> length line < 50) keywords"

text \<open>
  The same loop in \<open>layoutlmParser.ts\<close> ends with \<open>break\<close>: the result is the new
  \<open>currentSection\<close>, or \<open>None\<close> when \<open>foundSection\<close> stays false.
\<close>

fun plainHeaderLoop :: "SectionKind list \<Rightarrow> jsstring \<Rightarrow> SectionKind option" where
  "plainHeaderLoop [] line = None"
| "plainHeaderLoop (sec # rest) line =
     (if isPlainHeader line (plainSectionKeywords sec) then Some sec
      else plainHeaderLoop rest line)"

section \<open>Notions used to state the properties\<close>

text \<open>The six collection fields of the canonical record.\<close>

definition collectionFields :: "jsstring list" where
  "collectionFields = map js [''skills_or_tech_stack'', ''education'', ''experience'', ''projects'',
                              ''certifications'', ''languages'']"

text \<open>The section kinds whose header test a line passes, in the order of the dictionary.\<close>

definition headerKinds :: "jsstring \<Rightarrow> SectionKind list" where
  "headerKinds line = filter (\<lambda>sec. isHeader line (sectionKeywords sec)) sectionOrder"


text \<open>What the header branch does to the buffer before it sets \<open>currentSection\<close>.\<close>

definition flushBuffer :: "SegState \<Rightarrow> SegState" where
  "flushBuffer st =
     (if length (buffer st) > 0
      then st\<lparr>parsed := processSectionBuffer (parsed st) (currentSection st) (buffer st),
              buffer := []\<rparr>
      else st)"

text \<open>
  The scan without the contact block, which writes \<open>contact_information\<close> only and
  which no other step of the parser reads: the loop body for a raw line, the scan of all
  lines with the final flush, and a state with another contact record.
\<close>

definition scanRaw :: "SegState \<Rightarrow> jsstring \<Rightarrow> SegState" where
  "scanRaw st rawLine = (let line = trim rawLine in if line = [] then st else scanLine st line)"

definition segmentCore :: "jsstring list \<Rightarrow> ResumeData" where
  "segmentCore lines =
     parsed (flushBuffer (foldl scanRaw
       \<lparr>parsed = emptyResume, currentSection = None, buffer = []\<rparr> lines))"

definition withContact :: "SegState \<Rightarrow> ContactInfo \<Rightarrow> SegState" where
  "withContact st c = st\<lparr>parsed := (parsed st)\<lparr>contact_information := c\<rparr>\<rparr>"














text \<open>
  What the tier of the fallback that runs collects: the lines after the first loose
  skills header, or, when there is no such header, the matches of the keyword sweep.
\<close>

definition tierYield :: "jsstring \<Rightarrow> jsstring list" where
  "tierYield doc =
     (case dropWhile (\<lambda>l. \<not> looseSkillsHeader l) (splitLines doc) of
        header # rest \<Rightarrow> collectSkillsLines rest []
      | [] \<Rightarrow> keywordSweep doc)"





section \<open>Example records and documents\<close>

definition blankRawRecord :: ResumeData where
  "blankRawRecord = emptyResume\<lparr>skills_or_tech_stack := [js ''Python''],
                                raw_sections := (\<lambda>k. None)(Skills \<mapsto> js '' '')\<rparr>"


definition twoKindsDocument :: jsstring where
  "twoKindsDocument = js (''Education and Experience'' @ [CHR 0x0A] @ ''MIT'')"




text \<open>The two first lines of the contact example of the specification.\<close>

definition contactDocument :: jsstring where
  "contactDocument = js (''Jane Doe'' @ [CHR 0x0A] @ ''jane@x.com, (555) 123-4567'')"

section \<open>Properties of the Normalizer\<close>

lemma coalesce_idem: "coalesce (coalesce a b) b = coalesce a b"
  by (simp add: coalesce_def)

lemma arrayOr_idem: "arrayOr (arrayOr a) = arrayOr a"
  by (simp add: arrayOr_def)

lemma readProp_normalizeObj:
  "readProp (normalizeObj p) (js ''objective_or_summary'') = coalesce (p (js ''objective_or_summary'')) JNull"
  "readProp (normalizeObj p) (js ''skills_or_tech_stack'') = arrayOr (p (js ''skills_or_tech_stack''))"
  "readProp (normalizeObj p) (js ''education'') = arrayOr (p (js ''education''))"
  "readProp (normalizeObj p) (js ''experience'') = arrayOr (p (js ''experience''))"
  "readProp (normalizeObj p) (js ''projects'') = arrayOr (p (js ''projects''))"
  "readProp (normalizeObj p) (js ''certifications'') = arrayOr (p (js ''certifications''))"
  "readProp (normalizeObj p) (js ''languages'') = arrayOr (p (js ''languages''))"
  "readProp (normalizeObj p) (js ''contact_information'') = coalesce (p (js ''contact_information'')) defaultContact"
  "readProp (normalizeObj p) (js ''_raw_sections'') = coalesce (p (js ''_raw_sections'')) (JObj [])"
  "readProp (normalizeObj p) (js ''_raw_text'') = coalesce (p (js ''_raw_text'')) JUndefined"
  by (simp_all add: readProp_def normalizeObj_def js_def)

lemma normalizeObj_idem: "normalizeObj (readProp (normalizeObj p)) = normalizeObj p"
  unfolding normalizeObj_def[of "readProp (normalizeObj p)"] readProp_normalizeObj
  by (simp add: coalesce_idem arrayOr_idem normalizeObj_def)

lemma normalizeParsed_obj: "normalizeParsed (JObj kvs) = Inr (normalizeObj (readProp (JObj kvs)))"
  by (simp add: normalizeParsed_def)

lemma normalizeParsed_non_nullish:
  "\<not> nullish v \<Longrightarrow> normalizeParsed v = Inr (normalizeObj (readProp v))"
  by (cases v) (simp_all add: normalizeParsed_def nullish_def)

lemma normalizeParsed_nullish:
  "nullish v \<Longrightarrow> normalizeParsed v = Inl TypeError"
  by (cases v) (simp_all add: normalizeParsed_def nullish_def)

lemma normalizeObj_is_obj: "\<not> nullish (normalizeObj p)"
  by (simp add: normalizeObj_def nullish_def)

text \<open>
  C9, as the code has it. A present \<open>contact_information\<close> is kept as it is, so a
  contact object with one field comes back with one field; and the first property read
  throws on \<open>null\<close>. The input below is a record with a partial contact object.
\<close>

theorem normalizeParsed_counterexample:
  "normalizeParsed JNull = Inl TypeError
   \<and> normalizeParsed (JObj [(js ''contact_information'', JObj [(js ''name'', JStr (js ''Ann''))])])
     = Inr (JObj [(js ''objective_or_summary'', JNull),
           (js ''skills_or_tech_stack'', JArr []),
           (js ''education'', JArr []),
           (js ''experience'', JArr []),
           (js ''projects'', JArr []),
           (js ''certifications'', JArr []),
           (js ''languages'', JArr []),
           (js ''contact_information'', JObj [(js ''name'', JStr (js ''Ann''))]),
           (js ''_raw_sections'', JObj []),
           (js ''_raw_text'', JUndefined)])
   \<and> readProp (JObj [(js ''name'', JStr (js ''Ann''))]) (js ''email'') = JUndefined"
  by (simp add: normalizeParsed_def normalizeObj_def readProp_def coalesce_def arrayOr_def
      nullish_def js_def)

text \<open>
  C9 (amended): for every input other than \<open>null\<close> and \<open>undefined\<close>,
  \<open>normalizeParsed\<close> returns a record in which each of the six collection fields is an
  array (the input's array when it has one, else the empty array), a missing or
  \<open>null\<close> \<open>objective_or_summary\<close> is \<open>null\<close>, a missing or \<open>null\<close>
  \<open>contact_information\<close> is the record of four empty strings, a missing
  \<open>_raw_sections\<close> is the empty object; a value that is present is returned unchanged.
\<close>

theorem normalizeParsed_schema:
  assumes "\<not> nullish v"
  shows "\<exists>r. normalizeParsed v = Inr r
     \<and> (\<forall>k \<in> set collectionFields.
           isArray (readProp r k)
           \<and> readProp r k = (if isArray (readProp v k) then readProp v k else JArr []))
     \<and> readProp r (js ''objective_or_summary'')
         = (if nullish (readProp v (js ''objective_or_summary'')) then JNull
            else readProp v (js ''objective_or_summary''))
     \<and> readProp r (js ''contact_information'')
         = (if nullish (readProp v (js ''contact_information'')) then defaultContact
            else readProp v (js ''contact_information''))
     \<and> readProp r (js ''_raw_sections'')
         = (if nullish (readProp v (js ''_raw_sections'')) then JObj []
            else readProp v (js ''_raw_sections''))
     \<and> readProp r (js ''_raw_text'')
         = (if nullish (readProp v (js ''_raw_text'')) then JUndefined
            else readProp v (js ''_raw_text''))"
proof -
  have r: "normalizeParsed v = Inr (normalizeObj (readProp v))"
    using assms by (rule normalizeParsed_non_nullish)
  have c: "\<forall>k \<in> set collectionFields.
           isArray (readProp (normalizeObj (readProp v)) k)
           \<and> readProp (normalizeObj (readProp v)) k
               = (if isArray (readProp v k) then readProp v k else JArr [])"
    unfolding collectionFields_def
    by (simp add: readProp_normalizeObj arrayOr_def)
  show ?thesis
    unfolding r using c
    by (simp add: readProp_normalizeObj coalesce_def)
qed

theorem normalizeParsed_schema_witness:
  "\<exists>r. normalizeParsed (JObj [(js ''education'', JStr (js ''none''))]) = Inr r
     \<and> readProp r (js ''education'') = JArr []
     \<and> readProp r (js ''contact_information'') = defaultContact
     \<and> readProp r (js ''objective_or_summary'') = JNull"
proof -
  have n: "\<not> nullish (JObj [(js ''education'', JStr (js ''none''))])"
    by (simp add: nullish_def)
  have e: "js ''education'' \<in> set collectionFields"
    by (simp add: collectionFields_def)
  have p: "readProp (JObj [(js ''education'', JStr (js ''none''))]) (js ''education'') = JStr (js ''none'')"
    "readProp (JObj [(js ''education'', JStr (js ''none''))]) (js ''contact_information'') = JUndefined"
    "readProp (JObj [(js ''education'', JStr (js ''none''))]) (js ''objective_or_summary'') = JUndefined"
    by (simp_all add: readProp_def js_def)
  from normalizeParsed_schema [OF n] obtain r where
    r: "normalizeParsed (JObj [(js ''education'', JStr (js ''none''))]) = Inr r"
    and c: "\<forall>k \<in> set collectionFields.
           isArray (readProp r k)
           \<and> readProp r k = (if isArray (readProp (JObj [(js ''education'', JStr (js ''none''))]) k)
                             then readProp (JObj [(js ''education'', JStr (js ''none''))]) k else JArr [])"
    and o: "readProp r (js ''objective_or_summary'')
         = (if nullish (readProp (JObj [(js ''education'', JStr (js ''none''))]) (js ''objective_or_summary'')) then JNull
            else readProp (JObj [(js ''education'', JStr (js ''none''))]) (js ''objective_or_summary''))"
    and ci: "readProp r (js ''contact_information'')
         = (if nullish (readProp (JObj [(js ''education'', JStr (js ''none''))]) (js ''contact_information'')) then defaultContact
            else readProp (JObj [(js ''education'', JStr (js ''none''))]) (js ''contact_information''))"
    by blast
  from c e have "readProp r (js ''education'')
      = (if isArray (readProp (JObj [(js ''education'', JStr (js ''none''))]) (js ''education''))
         then readProp (JObj [(js ''education'', JStr (js ''none''))]) (js ''education'') else JArr [])"
    by blast
  then have "readProp r (js ''education'') = JArr []"
    by (simp add: p)
  moreover from o have "readProp r (js ''objective_or_summary'') = JNull"
    by (simp add: p nullish_def)
  moreover from ci have "readProp r (js ''contact_information'') = defaultContact"
    by (simp add: p nullish_def)
  ultimately show ?thesis using r by blast
qed

text \<open>
  C10: \<open>normalizeParsed\<close> is idempotent. Normalizing the result of a call gives that
  result again (and where the call throws, so does the composition); on every object the
  call returns a record, which is therefore a fixed point.
\<close>

theorem normalizeParsed_idempotent:
  "(case normalizeParsed x of Inl e \<Rightarrow> Inl e | Inr y \<Rightarrow> normalizeParsed y) = normalizeParsed x
   \<and> \<not> isl (normalizeParsed (JObj kvs))"
proof (cases "nullish x")
  case True
  then show ?thesis by (simp add: normalizeParsed_nullish normalizeParsed_obj)
next
  case False
  then show ?thesis
    by (simp add: normalizeParsed_non_nullish normalizeObj_is_obj normalizeObj_idem
        normalizeParsed_obj)
qed

theorem normalizeParsed_idempotent_witness:
  "(case normalizeParsed (JObj [(js ''languages'', JArr [JStr (js ''Tamil'')])]) of
      Inl e \<Rightarrow> Inl e | Inr y \<Rightarrow> normalizeParsed y)
   = normalizeParsed (JObj [(js ''languages'', JArr [JStr (js ''Tamil'')])])"
  using normalizeParsed_idempotent [of "JObj [(js ''languages'', JArr [JStr (js ''Tamil'')])]" "[]"]
  by simp

section \<open>Properties of the deterministic responder\<close>



lemma rawAnswer_empty:
  "raw_sections r kind = None \<or> raw_sections r kind = Some [] \<Longrightarrow> rawAnswer r kind = None"
  by (auto simp: rawAnswer_def)

lemma work_query: "\<not> isSkillQuery (js ''work'')" "isExperienceQuery (js ''work'')"
  by (simp_all add: isSkillQuery_def isExperienceQuery_def someKeyword_def js_def)


lemma empty_query:
  "\<not> isSkillQuery []" "\<not> isExperienceQuery []" "\<not> isEducationQuery []" "\<not> isProjectsQuery []"
  "\<not> isCertificationsQuery []" "\<not> isContactQuery []" "\<not> isSummaryQuery []" "\<not> isLanguagesQuery []"
  by (simp_all add: isSkillQuery_def isExperienceQuery_def isEducationQuery_def isProjectsQuery_def
      isCertificationsQuery_def isContactQuery_def isSummaryQuery_def isLanguagesQuery_def
      someKeyword_def js_def)





text \<open>
  C5: the sentinel is the literal \<open>The resume does not contain this information.\<close>, and
  for every record whose raw experience section is absent or empty and whose experience
  list is empty the query \<open>work\<close> returns the sentinel, which is not the empty string.
\<close>

theorem sentinel_for_missing_experience:
  assumes "raw_sections r Experience = None \<or> raw_sections r Experience = Some []"
    and "experience r = []"
  shows "FALLBACK = js ''The resume does not contain this information.''
         \<and> answerFromParsedDeterministic r (js ''work'') = FALLBACK
         \<and> answerFromParsedDeterministic r (js ''work'') \<noteq> []"
proof -
  have "answerFromParsedDeterministic r (js ''work'') = FALLBACK"
    using assms by (simp add: answerFromParsedDeterministic_def work_query rawAnswer_empty)
  moreover have "FALLBACK \<noteq> []"
    by (simp add: FALLBACK_def js_def)
  ultimately show ?thesis
    by (simp add: FALLBACK_def)
qed

theorem sentinel_for_missing_experience_witness:
  "answerFromParsedDeterministic emptyResume (js ''work'')
     = js ''The resume does not contain this information.''"
  using sentinel_for_missing_experience [of emptyResume]
  by (simp add: emptyResume_def)

text \<open>
  C6, as the code has it. The help message names six intents; \<open>certifications\<close> and
  \<open>languages\<close> do not occur in it.
\<close>

theorem empty_query_help_counterexample:
  "answerFromParsedDeterministic emptyResume (js '''') = HELP
   \<and> \<not> includesStr (answerFromParsedDeterministic emptyResume (js '''')) (js ''certifications'')
   \<and> \<not> includesStr (answerFromParsedDeterministic emptyResume (js '''')) (js ''languages'')"
proof -
  have a: "answerFromParsedDeterministic emptyResume (js '''') = HELP"
    by (simp add: answerFromParsedDeterministic_def empty_query js_def)
  have "\<not> includesStr HELP (js ''certifications'')"
    by (simp add: HELP_def js_def)
  moreover have "\<not> includesStr HELP (js ''languages'')"
    by (simp add: HELP_def js_def)
  ultimately show ?thesis using a by simp
qed

text \<open>
  C6 (amended): for every record, the empty query returns the fixed help message, which
  is not the not-found sentinel and names the six intents skills, experience, education,
  projects, contact and summary.
\<close>

theorem empty_query_help:
  "answerFromParsedDeterministic r [] = HELP
   \<and> HELP \<noteq> FALLBACK
   \<and> list_all (\<lambda>w. includesStr HELP (js w))
        [''skills'', ''experience'', ''education'', ''projects'', ''contact'', ''summary'']"
proof -
  have "answerFromParsedDeterministic r [] = HELP"
    by (simp add: answerFromParsedDeterministic_def empty_query)
  moreover have "HELP \<noteq> FALLBACK"
    by (simp add: HELP_def FALLBACK_def js_def)
  moreover have "list_all (\<lambda>w. includesStr HELP (js w))
        [''skills'', ''experience'', ''education'', ''projects'', ''contact'', ''summary'']"
    by (simp add: HELP_def js_def)
  ultimately show ?thesis by simp
qed

theorem empty_query_help_witness:
  "answerFromParsedDeterministic blankRawRecord [] = HELP \<and> HELP \<noteq> FALLBACK"
  using empty_query_help [of blankRawRecord]
  by simp

section \<open>Properties of the section segmenter and of the fallback skill scanner\<close>


lemma flushBuffer_idem:
  "flushBuffer ((flushBuffer st)\<lparr>currentSection := c\<rparr>) = (flushBuffer st)\<lparr>currentSection := c\<rparr>"
  by (simp add: flushBuffer_def)

lemma headerLoop_step:
  "headerLoop (sec # rest) line (st, found) =
     (if isHeader line (sectionKeywords sec)
      then headerLoop rest line ((flushBuffer st)\<lparr>currentSection := Some sec\<rparr>, True)
      else headerLoop rest line (st, found))"
  by (simp add: flushBuffer_def)

lemma headerLoop_last:
  "headerLoop secs line (st, found) =
     (case filter (\<lambda>sec. isHeader line (sectionKeywords sec)) secs of
        [] \<Rightarrow> (st, found)
      | m # ms \<Rightarrow> ((flushBuffer st)\<lparr>currentSection := Some (last (m # ms))\<rparr>, True))"
proof (induction secs arbitrary: st found)
  case Nil
  then show ?case by simp
next
  case (Cons sec rest)
  show ?case
  proof (cases "isHeader line (sectionKeywords sec)")
    case True
    then show ?thesis
      unfolding headerLoop_step
      by (simp add: Cons.IH flushBuffer_idem split: list.splits)
  next
    case False
    then show ?thesis
      unfolding headerLoop_step
      by (simp add: Cons.IH)
  qed
qed

lemma scanRaw_blank: "trim l = [] \<Longrightarrow> scanRaw st l = st"
  by (simp add: scanRaw_def)

lemma scanRaw_body:
  "trim l \<noteq> [] \<Longrightarrow> headerKinds (trim l) = [] \<Longrightarrow>
   scanRaw st l = st\<lparr>buffer := buffer st @ [trim l]\<rparr>"
  by (simp add: scanRaw_def scanLine_def headerLoop_last headerKinds_def Let_def)

lemma scanRaw_header:
  "trim l \<noteq> [] \<Longrightarrow> headerKinds (trim l) = m # ms \<Longrightarrow>
   scanRaw st l = (flushBuffer st)\<lparr>currentSection := Some (last (m # ms))\<rparr>"
  by (simp add: scanRaw_def scanLine_def headerLoop_last headerKinds_def Let_def)

lemma plainHeaderLoop_first:
  "plainHeaderLoop secs line = find (\<lambda>sec. isPlainHeader line (plainSectionKeywords sec)) secs"
  by (induction secs) simp_all










lemma final_flush:
  "(if length (buffer st) > 0
    then processSectionBuffer (parsed st) (currentSection st) (buffer st) else parsed st)
   = parsed (flushBuffer st)"
  by (simp add: flushBuffer_def)




lemma raw_skillFallback_other:
  "k \<noteq> Skills \<Longrightarrow> raw_sections (skillFallback doc p) k = raw_sections p k"
  by (simp add: skillFallback_def setRaw_def Let_def split: list.splits)


lemma set_trim: "set (trim s) \<subseteq> set s"
  by (auto simp: trim_def dest!: set_dropWhileD)













lemma skillFallback_yield:
  "skillFallback d p =
     (if tierYield d = [] then p
      else (setRaw p Skills
              (if list_ex looseSkillsHeader (splitLines d)
               then join (js [CHR 0x0A]) (tierYield d) else join (js '', '') (tierYield d)))
           \<lparr>skills_or_tech_stack :=
              (if list_ex looseSkillsHeader (splitLines d)
               then extractSkills (tierYield d) else tierYield d)\<rparr>)"
proof (cases "dropWhile (\<lambda>l. \<not> looseSkillsHeader l) (splitLines d)")
  case Nil
  then have nl: "\<not> list_ex looseSkillsHeader (splitLines d)"
    by (simp add: list_ex_iff)
  show ?thesis
    unfolding skillFallback_def tierYield_def Nil using nl by (simp add: Let_def)
next
  case (Cons h rest)
  then have "dropWhile (\<lambda>l. \<not> looseSkillsHeader l) (splitLines d) \<noteq> []"
    by simp
  then have l: "list_ex looseSkillsHeader (splitLines d)"
    by (auto simp: list_ex_iff)
  show ?thesis
    unfolding skillFallback_def tierYield_def Cons using l by (simp add: Let_def)
qed

lemma scanLine_kinds:
  "scanLine st line =
     (case headerKinds line of
        [] \<Rightarrow> if length line > 0 then st\<lparr>buffer := buffer st @ [line]\<rparr> else st
      | m # ms \<Rightarrow> (flushBuffer st)\<lparr>currentSection := Some (last (m # ms))\<rparr>)"
  by (simp add: scanLine_def headerLoop_last headerKinds_def split: list.splits)

lemma processSectionBuffer_contact:
  "processSectionBuffer (p\<lparr>contact_information := c\<rparr>) s b
   = (processSectionBuffer p s b)\<lparr>contact_information := c\<rparr>"
proof (cases s)
  case None
  then show ?thesis by simp
next
  case (Some kind)
  then show ?thesis
    by (cases kind) (simp_all add: setRaw_def)
qed

lemma flushBuffer_withContact: "flushBuffer (withContact st c) = withContact (flushBuffer st) c"
  by (simp add: flushBuffer_def withContact_def processSectionBuffer_contact)

lemma scanLine_withContact: "scanLine (withContact st c) line = withContact (scanLine st line) c"
  unfolding scanLine_kinds flushBuffer_withContact
  by (simp add: withContact_def split: list.splits)

lemma scanRaw_withContact: "scanRaw (withContact st c) l = withContact (scanRaw st l) c"
  by (simp add: scanRaw_def Let_def scanLine_withContact)

lemma withContact_withContact: "withContact (withContact st c) c' = withContact st c'"
  by (simp add: withContact_def)

lemma withContact_same: "withContact st (contact_information (parsed st)) = st"
  by (simp add: withContact_def)

lemma segmentLine_scanRaw:
  "\<exists>c'. segmentLine (withContact st c) il = withContact (scanRaw st (snd il)) c'"
proof (cases "trim (snd il) = []")
  case True
  then have "segmentLine (withContact st c) il = withContact (scanRaw st (snd il)) c"
    by (simp add: segmentLine_def scanRaw_def)
  then show ?thesis by blast
next
  case False
  let ?c = "contactStep (fst il) (trim (snd il)) c"
  have "segmentLine (withContact st c) il = scanLine (withContact st ?c) (trim (snd il))"
    using False by (simp add: segmentLine_def Let_def withContact_def)
  also have "\<dots> = withContact (scanRaw st (snd il)) ?c"
    using False by (simp add: scanLine_withContact scanRaw_def)
  finally show ?thesis by blast
qed

lemma foldl_segmentLine:
  "\<exists>c'. foldl segmentLine (withContact st c) ils = withContact (foldl scanRaw st (map snd ils)) c'"
proof (induction ils arbitrary: st c)
  case Nil
  then show ?case by auto
next
  case (Cons il ils)
  obtain c1 where "segmentLine (withContact st c) il = withContact (scanRaw st (snd il)) c1"
    using segmentLine_scanRaw by blast
  with Cons.IH [of "scanRaw st (snd il)" c1] show ?case by simp
qed

lemma segment_core: "\<exists>c. segment ls = (segmentCore ls)\<lparr>contact_information := c\<rparr>"
proof -
  let ?init = "\<lparr>parsed = emptyResume, currentSection = None, buffer = []\<rparr>"
  obtain c where "foldl segmentLine (withContact ?init (contact_information (parsed ?init)))
      (enumerate 0 ls) = withContact (foldl scanRaw ?init (map snd (enumerate 0 ls))) c"
    using foldl_segmentLine by blast
  then have f: "foldl segmentLine ?init (enumerate 0 ls) = withContact (foldl scanRaw ?init ls) c"
    by (simp only: withContact_same map_snd_enumerate)
  have "segment ls = parsed (flushBuffer (foldl segmentLine ?init (enumerate 0 ls)))"
    by (simp add: segment_def Let_def flushBuffer_def)
  also have "\<dots> = (segmentCore ls)\<lparr>contact_information := c\<rparr>"
    unfolding f flushBuffer_withContact by (simp add: withContact_def segmentCore_def)
  finally show ?thesis by blast
qed

lemma raw_segment: "raw_sections (segment ls) = raw_sections (segmentCore ls)"
  using segment_core [of ls] by auto



lemma currentSection_segmentLine:
  "currentSection (segmentLine st il) = currentSection (scanRaw st (snd il))"
proof -
  obtain c where "segmentLine (withContact st (contact_information (parsed st))) il
      = withContact (scanRaw st (snd il)) c"
    using segmentLine_scanRaw by blast
  then show ?thesis
    by (simp add: withContact_same) (simp add: withContact_def)
qed



lemma parse_raw_other:
  "k \<noteq> Skills \<Longrightarrow>
   raw_sections (parseResumeTextFallback doc) k = raw_sections (segmentCore (nonBlankLines doc)) k"
  by (simp add: parseResumeTextFallback_def Let_def raw_skillFallback_other raw_segment)






section \<open>Properties of skills extraction\<close>









lemma setAdd_snoc: "foldl setAdd acc (xs @ [x]) = setAdd (foldl setAdd acc xs) x"
  by simp











subsection \<open>The order of the input and the first tier of the fallback\<close>








section \<open>Evaluation on concrete inputs\<close>

text \<open>
  The keyword tables as lists of code units, for the evaluation of concrete documents.
\<close>

lemma sectionKeywords_num:
  "sectionKeywords Objective =
     [[111, 98, 106, 101, 99, 116, 105, 118, 101],
      [115, 117, 109, 109, 97, 114, 121],
      [112, 114, 111, 102, 105, 108, 101],
      [97, 98, 111, 117, 116],
      [112, 114, 111, 102, 101, 115, 115, 105, 111, 110, 97, 108, 32, 115, 117, 109, 109, 97, 114, 121]]"
  "sectionKeywords Skills =
     [[115, 107, 105, 108, 108, 115],
      [116, 101, 99, 104, 110, 105, 99, 97, 108, 32, 115, 107, 105, 108, 108, 115],
      [116, 101, 99, 104, 32, 115, 116, 97, 99, 107],
      [116, 101, 99, 104, 110, 111, 108, 111, 103, 105, 101, 115],
      [99, 111, 109, 112, 101, 116, 101, 110, 99, 105, 101, 115],
      [101, 120, 112, 101, 114, 116, 105, 115, 101],
      [99, 111, 114, 101, 32, 99, 111, 109, 112, 101, 116, 101, 110, 99, 105, 101, 115],
      [116, 101, 99, 104, 110, 105, 99, 97, 108, 32, 101, 120, 112, 101, 114, 116, 105, 115, 101],
      [112, 114, 111, 103, 114, 97, 109, 109, 105, 110, 103, 32, 108, 97, 110, 103, 117, 97, 103, 101, 115],
      [116, 111, 111, 108, 115],
      [115, 111, 102, 116, 119, 97, 114, 101]]"
  "sectionKeywords Education =
     [[101, 100, 117, 99, 97, 116, 105, 111, 110],
      [97, 99, 97, 100, 101, 109, 105, 99],
      [113, 117, 97, 108, 105, 102, 105, 99, 97, 116, 105, 111, 110],
      [100, 101, 103, 114, 101, 101],
      [117, 110, 105, 118, 101, 114, 115, 105, 116, 121],
      [99, 111, 108, 108, 101, 103, 101],
      [97, 99, 97, 100, 101, 109, 105, 99, 32, 98, 97, 99, 107, 103, 114, 111, 117, 110, 100]]"
  "sectionKeywords Experience =
     [[101, 120, 112, 101, 114, 105, 101, 110, 99, 101],
      [119, 111, 114, 107, 32, 104, 105, 115, 116, 111, 114, 121],
      [101, 109, 112, 108, 111, 121, 109, 101, 110, 116],
      [112, 114, 111, 102, 101, 115, 115, 105, 111, 110, 97, 108, 32, 101, 120, 112, 101, 114, 105, 101, 110, 99, 101],
      [119, 111, 114, 107, 32, 101, 120, 112, 101, 114, 105, 101, 110, 99, 101],
      [99, 97, 114, 101, 101, 114],
      [101, 109, 112, 108, 111, 121, 109, 101, 110, 116, 32, 104, 105, 115, 116, 111, 114, 121]]"
  "sectionKeywords Projects =
     [[112, 114, 111, 106, 101, 99, 116, 115],
      [112, 101, 114, 115, 111, 110, 97, 108, 32, 112, 114, 111, 106, 101, 99, 116, 115],
      [112, 111, 114, 116, 102, 111, 108, 105, 111],
      [112, 114, 111, 106, 101, 99, 116, 32, 101, 120, 112, 101, 114, 105, 101, 110, 99, 101],
      [107, 101, 121, 32, 112, 114, 111, 106, 101, 99, 116, 115],
      [112, 114, 111, 106, 101, 99, 116],
      [115, 105, 100, 101, 32, 112, 114, 111, 106, 101, 99, 116, 115],
      [97, 99, 97, 100, 101, 109, 105, 99, 32, 112, 114, 111, 106, 101, 99, 116, 115],
      [110, 111, 116, 97, 98, 108, 101, 32, 112, 114, 111, 106, 101, 99, 116, 115]]"
  "sectionKeywords Certifications =
     [[99, 101, 114, 116, 105, 102, 105, 99, 97, 116, 105, 111, 110, 115],
      [99, 101, 114, 116, 105, 102, 105, 99, 97, 116, 101, 115],
      [108, 105, 99, 101, 110, 115, 101, 115],
      [99, 101, 114, 116, 105, 102, 105, 99, 97, 116, 105, 111, 110],
      [99, 114, 101, 100, 101, 110, 116, 105, 97, 108, 115]]"
  "sectionKeywords Languages =
     [[108, 97, 110, 103, 117, 97, 103, 101, 115],
      [108, 97, 110, 103, 117, 97, 103, 101, 32, 112, 114, 111, 102, 105, 99, 105, 101, 110, 99, 121],
      [108, 97, 110, 103, 117, 97, 103, 101, 32, 115, 107, 105, 108, 108, 115],
      [115, 112, 111, 107, 101, 110, 32, 108, 97, 110, 103, 117, 97, 103, 101, 115]]"
  by (simp_all add: js_def)

lemma plainSectionKeywords_num:
  "plainSectionKeywords Objective =
     [[111, 98, 106, 101, 99, 116, 105, 118, 101],
      [115, 117, 109, 109, 97, 114, 121],
      [112, 114, 111, 102, 105, 108, 101],
      [97, 98, 111, 117, 116],
      [112, 114, 111, 102, 101, 115, 115, 105, 111, 110, 97, 108, 32, 115, 117, 109, 109, 97, 114, 121]]"
  "plainSectionKeywords Skills =
     [[115, 107, 105, 108, 108, 115],
      [116, 101, 99, 104, 110, 105, 99, 97, 108, 32, 115, 107, 105, 108, 108, 115],
      [116, 101, 99, 104, 32, 115, 116, 97, 99, 107],
      [116, 101, 99, 104, 110, 111, 108, 111, 103, 105, 101, 115],
      [99, 111, 109, 112, 101, 116, 101, 110, 99, 105, 101, 115],
      [101, 120, 112, 101, 114, 116, 105, 115, 101]]"
  "plainSectionKeywords Education =
     [[101, 100, 117, 99, 97, 116, 105, 111, 110],
      [97, 99, 97, 100, 101, 109, 105, 99],
      [113, 117, 97, 108, 105, 102, 105, 99, 97, 116, 105, 111, 110],
      [100, 101, 103, 114, 101, 101],
      [117, 110, 105, 118, 101, 114, 115, 105, 116, 121],
      [99, 111, 108, 108, 101, 103, 101]]"
  "plainSectionKeywords Experience =
     [[101, 120, 112, 101, 114, 105, 101, 110, 99, 101],
      [119, 111, 114, 107, 32, 104, 105, 115, 116, 111, 114, 121],
      [101, 109, 112, 108, 111, 121, 109, 101, 110, 116],
      [112, 114, 111, 102, 101, 115, 115, 105, 111, 110, 97, 108, 32, 101, 120, 112, 101, 114, 105, 101, 110, 99, 101],
      [119, 111, 114, 107],
      [99, 97, 114, 101, 101, 114]]"
  "plainSectionKeywords Projects =
     [[112, 114, 111, 106, 101, 99, 116, 115],
      [112, 101, 114, 115, 111, 110, 97, 108, 32, 112, 114, 111, 106, 101, 99, 116, 115],
      [112, 111, 114, 116, 102, 111, 108, 105, 111],
      [112, 114, 111, 106, 101, 99, 116, 32, 101, 120, 112, 101, 114, 105, 101, 110, 99, 101]]"
  "plainSectionKeywords Certifications =
     [[99, 101, 114, 116, 105, 102, 105, 99, 97, 116, 105, 111, 110, 115],
      [99, 101, 114, 116, 105, 102, 105, 99, 97, 116, 101, 115],
      [108, 105, 99, 101, 110, 115, 101, 115],
      [99, 101, 114, 116, 105, 102, 105, 99, 97, 116, 105, 111, 110]]"
  "plainSectionKeywords Languages =
     [[108, 97, 110, 103, 117, 97, 103, 101, 115],
      [108, 97, 110, 103, 117, 97, 103, 101, 32, 112, 114, 111, 102, 105, 99, 105, 101, 110, 99, 121],
      [108, 97, 110, 103, 117, 97, 103, 101, 32, 115, 107, 105, 108, 108, 115]]"
  by (simp_all add: js_def)




lemma months_num:
  "months =
     [[106, 97, 110],
      [102, 101, 98],
      [109, 97, 114],
      [97, 112, 114],
      [109, 97, 121],
      [106, 117, 110],
      [106, 117, 108],
      [97, 117, 103],
      [115, 101, 112],
      [111, 99, 116],
      [110, 111, 118],
      [100, 101, 99]]"
  by (simp add: months_def js_def)

lemma js_marks:
  "js '':'' = [58]" "js '' -'' = [32, 45]" "js '' '' = [32]" "js '','' = [44]"
  "js ''.'' = [46]" "js '', '' = [44, 32]" "js [CHR 0x0A] = [10]"
  "js ''present'' = [112, 114, 101, 115, 101, 110, 116]" "js ''current'' = [99, 117, 114, 114, 101, 110, 116]"
  "js ''c++'' = [99, 43, 43]" "js ''c#'' = [99, 35]"
  by (simp_all add: js_def)

lemmas header_eval = headerKinds_def sectionOrder_def isHeader_def Let_def toLowerCase_def
  toLowerUnit_def isUpperHeader_def isSpace_def sectionKeywords_num js_marks

lemmas regex_eval = isDigit_def isWordChar_def isSpace_def asciiLower_def isAsciiLetter_def

subsection \<open>Contact extraction on an example document\<close>

lemma contact_scanLine: "contact_information (parsed (scanLine st line)) = contact_information (parsed st)"
proof -
  have "scanLine (withContact st (contact_information (parsed st))) line
        = withContact (scanLine st line) (contact_information (parsed st))"
    by (rule scanLine_withContact)
  then have "scanLine st line = withContact (scanLine st line) (contact_information (parsed st))"
    by (simp add: withContact_same)
  then have "contact_information (parsed (scanLine st line))
             = contact_information (parsed (withContact (scanLine st line) (contact_information (parsed st))))"
    by simp
  then show ?thesis by (simp add: withContact_def)
qed

lemma contact_segmentLine:
  "contact_information (parsed (segmentLine st (i, l)))
   = (if trim l = [] then contact_information (parsed st)
      else contactStep i (trim l) (contact_information (parsed st)))"
  by (simp add: segmentLine_def Let_def contact_scanLine)

lemma contact_processSectionBuffer:
  "contact_information (processSectionBuffer p s b) = contact_information p"
proof (cases s)
  case None
  then show ?thesis by simp
next
  case (Some kind)
  then show ?thesis by (cases kind) (simp_all add: setRaw_def)
qed

lemma contact_skillFallback: "contact_information (skillFallback d p) = contact_information p"
  by (simp add: skillFallback_yield setRaw_def)

lemma contact_parse:
  "contact_information (parseResumeTextFallback d) = contact_information (segment (nonBlankLines d))"
  by (simp add: parseResumeTextFallback_def Let_def contact_skillFallback)

lemma contact_lines:
  "nonBlankLines contactDocument = [js ''Jane Doe'', js ''jane@x.com, (555) 123-4567'']"
  "trim (js ''Jane Doe'') = js ''Jane Doe''"
  "trim (js ''jane@x.com, (555) 123-4567'') = js ''jane@x.com, (555) 123-4567''"
  by (simp_all add: contactDocument_def nonBlankLines_def splitLines_def trim_def isSpace_def js_def)

lemmas rx_eval = regexMatch_def emailRegex_def phoneRegex_def linkedinRegex_def
  isEmailLocal_def isEmailDomain_def isEmailTld_def isPhoneSeparator_def wordBoundary_def
  regex_eval Let_def

lemma jane_matches:
  "regexMatch emailRegex (js ''Jane Doe'') = None"
  "regexMatch phoneRegex (js ''Jane Doe'') = None"
  "regexMatch linkedinRegex (js ''Jane Doe'') = None"
  by (simp_all add: rx_eval js_def)

lemma jane_no_keyword:
  "\<not> list_ex (\<lambda>keyword. includesStr (toLowerCase (js ''Jane Doe'')) keyword) allKeywords"
  by (simp add: allKeywords_def sectionOrder_def sectionKeywords_num
      toLowerCase_def toLowerUnit_def js_def del: sectionKeywords.simps)

lemma second_line_matches:
  "regexMatch emailRegex (js ''jane@x.com, (555) 123-4567'') = Some (js ''jane@x.com'')"
  "regexMatch phoneRegex (js ''jane@x.com, (555) 123-4567'') = Some (js ''(555) 123-4567'')"
  "regexMatch linkedinRegex (js ''jane@x.com, (555) 123-4567'') = None"
  by (simp_all add: rx_eval js_def)

lemma truthy_empty: "\<not> truthy (Some [])"
  by simp

lemma jane_step:
  "contactStep 0 (js ''Jane Doe'') \<lparr>name = Some [], email = Some [], phone = Some [], location = Some []\<rparr>
   = \<lparr>name = Some (js ''Jane Doe''), email = Some [], phone = Some [], location = Some []\<rparr>"
proof -
  let ?c = "\<lparr>name = Some [], email = Some [], phone = Some [], location = Some []\<rparr>"
  have a: "setLocation (js ''Jane Doe'') (setPhone (js ''Jane Doe'') (setEmail (js ''Jane Doe'') ?c)) = ?c"
    by (simp add: setEmail_def setPhone_def setLocation_def jane_matches)
  show ?thesis
    unfolding contactStep_def Let_def using jane_no_keyword by (simp add: a)
qed

lemma second_step:
  "contactStep 1 (js ''jane@x.com, (555) 123-4567'')
     \<lparr>name = Some (js ''Jane Doe''), email = Some [], phone = Some [], location = Some []\<rparr>
   = \<lparr>name = Some (js ''Jane Doe''), email = Some (js ''jane@x.com''),
      phone = Some (js ''(555) 123-4567''), location = Some []\<rparr>"
  unfolding contactStep_def Let_def
  by (simp add: setEmail_def setPhone_def setLocation_def second_line_matches)

lemma contact_example:
  "contact_information (parseResumeTextFallback contactDocument)
   = \<lparr>name = Some (js ''Jane Doe''), email = Some (js ''jane@x.com''),
      phone = Some (js ''(555) 123-4567''), location = Some []\<rparr>"
proof -
  let ?init = "\<lparr>parsed = emptyResume, currentSection = None, buffer = []\<rparr>"
  let ?s1 = "segmentLine ?init (0, js ''Jane Doe'')"
  let ?s2 = "segmentLine ?s1 (1, js ''jane@x.com, (555) 123-4567'')"
  have c0: "contact_information (parsed ?init)
            = \<lparr>name = Some [], email = Some [], phone = Some [], location = Some []\<rparr>"
    by (simp add: emptyResume_def)
  have t: "js ''Jane Doe'' \<noteq> []" "js ''jane@x.com, (555) 123-4567'' \<noteq> []"
    by (simp_all add: js_def)
  have c1: "contact_information (parsed ?s1)
            = \<lparr>name = Some (js ''Jane Doe''), email = Some [], phone = Some [], location = Some []\<rparr>"
    unfolding contact_segmentLine contact_lines c0 jane_step using t by simp
  have c2: "contact_information (parsed ?s2)
            = \<lparr>name = Some (js ''Jane Doe''), email = Some (js ''jane@x.com''),
               phone = Some (js ''(555) 123-4567''), location = Some []\<rparr>"
    unfolding contact_segmentLine [of ?s1] contact_lines c1 second_step using t by simp
  have "segment (nonBlankLines contactDocument)
        = (if length (buffer ?s2) > 0
           then processSectionBuffer (parsed ?s2) (currentSection ?s2) (buffer ?s2) else parsed ?s2)"
    unfolding contact_lines segment_def Let_def by (simp add: enumerate_eq_zip)
  then have "contact_information (segment (nonBlankLines contactDocument))
        = contact_information (parsed ?s2)"
    by (simp add: contact_processSectionBuffer)
  then show ?thesis by (simp only: contact_parse c2)
qed

subsection \<open>The document with an indented skills section\<close>


lemma indented_trim:
  "trim (js ''Skills'') = js ''Skills''"
  "trim (js ''  Python  '') = js ''Python''"
  "trim (js ''Go'') = js ''Go''"
  "trim (js ''Education'') = js ''Education''"
  "trim (js ''MIT'') = js ''MIT''"
  by (simp_all add: trim_def isSpace_def js_def)

lemma indented_kinds:
  "headerKinds (js ''Skills'') = [Skills]"
  "headerKinds (js ''Python'') = []"
  "headerKinds (js ''Go'') = []"
  "headerKinds (js ''Education'') = [Education]"
  "headerKinds (js ''MIT'') = []"
  by (simp_all add: header_eval js_def del: sectionKeywords.simps)







subsection \<open>The document whose first line matches two section kinds\<close>

lemma twoKinds_lines:
  "nonBlankLines twoKindsDocument = [js ''Education and Experience'', js ''MIT'']"
  by (simp add: twoKindsDocument_def nonBlankLines_def splitLines_def trim_def isSpace_def js_def)

lemma twoKinds_trim: "trim (js ''Education and Experience'') = js ''Education and Experience''"
  by (simp add: trim_def isSpace_def js_def)

lemma twoKinds_kinds: "headerKinds (js ''Education and Experience'') = [Education, Experience]"
  by (simp add: header_eval js_def del: sectionKeywords.simps)

lemma twoKinds_plain:
  "plainHeaderLoop sectionOrder (js ''Education and Experience'') = Some Education"
  by (simp add: sectionOrder_def isPlainHeader_def toLowerCase_def toLowerUnit_def
      plainSectionKeywords_num js_def del: plainSectionKeywords.simps)

lemma twoKinds_first_line:
  "currentSection (segmentLine \<lparr>parsed = emptyResume, currentSection = None, buffer = []\<rparr>
        (0, js ''Education and Experience'')) = Some Experience"
  using scanRaw_header [of "js ''Education and Experience''" Education "[Experience]"
      "\<lparr>parsed = emptyResume, currentSection = None, buffer = []\<rparr>"]
  by (simp add: currentSection_segmentLine twoKinds_trim twoKinds_kinds) (simp add: js_def)

lemma twoKinds_segment:
  "segmentCore (nonBlankLines twoKindsDocument)
   = processSectionBuffer emptyResume (Some Experience) [js ''MIT'']"
proof -
  have a: "scanRaw \<lparr>parsed = emptyResume, currentSection = None, buffer = []\<rparr>
             (js ''Education and Experience'')
           = \<lparr>parsed = emptyResume, currentSection = Some Experience, buffer = []\<rparr>"
    using scanRaw_header [of "js ''Education and Experience''" Education "[Experience]"
        "\<lparr>parsed = emptyResume, currentSection = None, buffer = []\<rparr>"]
    by (simp add: twoKinds_trim twoKinds_kinds flushBuffer_def) (simp add: js_def)
  have b: "scanRaw \<lparr>parsed = emptyResume, currentSection = Some Experience, buffer = []\<rparr> (js ''MIT'')
        = \<lparr>parsed = emptyResume, currentSection = Some Experience, buffer = [js ''MIT'']\<rparr>"
    using scanRaw_body [of "js ''MIT''"
        "\<lparr>parsed = emptyResume, currentSection = Some Experience, buffer = []\<rparr>"]
    by (simp add: indented_trim indented_kinds) (simp add: js_def)
  show ?thesis
    by (simp add: twoKinds_lines segmentCore_def a b flushBuffer_def)
qed

text \<open>
  C2, on the code. The line \<open>Education and Experience\<close> passes the header test of
  \<open>education\<close> and of \<open>experience\<close>; \<open>education\<close> comes first in the enumeration
  order, yet after the line the active section of the enhanced parser is \<open>experience\<close>,
  and the body line is stored under \<open>experience\<close>. The same loop of the plain parser
  stops at the first match, \<open>education\<close>.
\<close>

theorem header_last_match_wins:
  "headerKinds (js ''Education and Experience'') = [Education, Experience]
   \<and> currentSection (segmentLine \<lparr>parsed = emptyResume, currentSection = None, buffer = []\<rparr>
        (0, js ''Education and Experience'')) = Some Experience
   \<and> raw_sections (parseResumeTextFallback twoKindsDocument) Experience = Some (js ''MIT'')
   \<and> raw_sections (parseResumeTextFallback twoKindsDocument) Education = None
   \<and> plainHeaderLoop sectionOrder (js ''Education and Experience'') = Some Education"
proof -
  have e: "raw_sections (parseResumeTextFallback twoKindsDocument) Experience = Some (js ''MIT'')"
    by (simp add: parse_raw_other twoKinds_segment setRaw_def)
  have d: "raw_sections (parseResumeTextFallback twoKindsDocument) Education = None"
    by (simp add: parse_raw_other twoKinds_segment setRaw_def emptyResume_def)
  from e d show ?thesis
    by (simp add: twoKinds_kinds twoKinds_first_line twoKinds_plain)
qed


subsection \<open>The experience buffer of the specification\<close>

lemma acme_dates:
  "\<not> dateMatch (js ''Acme Co'')"
  "\<not> dateMatch (js ''Engineer'')"
  "dateMatch (js ''2019 - Present'')"
  "\<not> dateMatch (js ''- Built X'')"
  "\<not> dateMatch (js ''- Shipped Y'')"
  by (simp_all add: dateMatch_def monthYearAt_def yearRangeAt_def months_num js_marks
      fourDigitsThenBoundary_def wordThenBoundary_def regex_eval js_def)

lemma acme_bullets:
  "\<not> isBulletLine (js ''Acme Co'')"
  "\<not> isBulletLine (js ''Engineer'')"
  "isBulletLine (js ''- Built X'')"
  "isBulletLine (js ''- Shipped Y'')"
  "trim (stripBullet (js ''- Built X'')) = js ''Built X''"
  "trim (stripBullet (js ''- Shipped Y'')) = js ''Shipped Y''"
  by (simp_all add: isBulletLine_def stripBullet_def trim_def js_def isSpace_def)

lemma acme_lengths: "length (js ''Acme Co'') > 2" "length (js ''Engineer'') > 2"
  by (simp_all add: js_def)

text \<open>
  C3, as the code has it. The date line \<open>2019 - Present\<close> comes after the company and
  the position, so it closes the entry that holds them and opens a second one: the
  extraction yields two entries, not the single entry of the claim.
\<close>

theorem extractExperience_acme_counterexample:
  "length (extractExperience [js ''Acme Co'', js ''Engineer'', js ''2019 - Present'',
                              js ''- Built X'', js ''- Shipped Y'']) = 2
   \<and> extractExperience [js ''Acme Co'', js ''Engineer'', js ''2019 - Present'',
                        js ''- Built X'', js ''- Shipped Y'']
     \<noteq> [\<lparr>company = Some (js ''Acme Co''), position = Some (js ''Engineer''),
          duration = Some (js ''2019 - Present''),
          responsibilities = Some [js ''Built X'', js ''Shipped Y''], exp_details = None\<rparr>]"
  by (simp add: extractExperience_def experienceStep_def acme_dates acme_bullets acme_lengths
      emptyExperience_def expHasKeys_def Let_def)

text \<open>
  C3 (amended): on that buffer the extraction yields two entries, the first with company
  \<open>Acme Co\<close>, position \<open>Engineer\<close>, no duration and no responsibilities, the second
  with duration \<open>2019 - Present\<close>, the responsibilities \<open>Built X\<close> and \<open>Shipped Y\<close>,
  and neither company nor position.
\<close>

theorem extractExperience_acme:
  "extractExperience [js ''Acme Co'', js ''Engineer'', js ''2019 - Present'',
                      js ''- Built X'', js ''- Shipped Y'']
   = [\<lparr>company = Some (js ''Acme Co''), position = Some (js ''Engineer''), duration = None,
        responsibilities = Some [], exp_details = None\<rparr>,
      \<lparr>company = None, position = None, duration = Some (js ''2019 - Present''),
        responsibilities = Some [js ''Built X'', js ''Shipped Y''], exp_details = None\<rparr>]"
  by (simp add: extractExperience_def experienceStep_def acme_dates acme_bullets acme_lengths
      emptyExperience_def expHasKeys_def Let_def)
     (simp add: js_def)


subsection \<open>The two documents without section headers\<close>















subsection \<open>The document with a loose skills header\<close>















subsection \<open>Lines with a token that only the lenient pass keeps\<close>













end
